theory Spec2Isabelle
  imports Complex_Main "HOL-Library.Word"
begin

unbundle bit_operations_syntax

section \<open>The C library as xml.c uses it\<close>

text \<open>
  xml.c parses attribute text with \<^verbatim>\<open>strtoll\<close>, \<^verbatim>\<open>strtol\<close>, \<^verbatim>\<open>sscanf\<close> and
  \<^verbatim>\<open>strtof\<close>. The integer parsers are modelled here after ISO C (7.21.6.2, 7.22.1.4) in
  the "C" locale, on an LP64 platform: \<^verbatim>\<open>long\<close> and \<^verbatim>\<open>long long\<close> have 64 bits,
  \<^verbatim>\<open>unsigned int\<close> has 32. A C string is a \<open>string\<close> without the terminating NUL.
\<close>

definition isspace :: "char \<Rightarrow> bool" where
  "isspace c = (c = CHR '' '' \<or> (9::nat) \<le> of_char c \<and> of_char c \<le> (13::nat))"

definition isdigit :: "char \<Rightarrow> bool" where
  "isdigit c = ((48::nat) \<le> of_char c \<and> of_char c \<le> (57::nat))"

text \<open>The value of a character as a digit of some base up to 36, as \<^verbatim>\<open>strtol\<close> reads it.\<close>

definition digit_val :: "char \<Rightarrow> nat option" where
  "digit_val c =
     (let n = (of_char c :: nat) in
      if 48 \<le> n \<and> n \<le> 57 then Some (n - 48)
      else if 97 \<le> n \<and> n \<le> 122 then Some (n - 87)
      else if 65 \<le> n \<and> n \<le> 90 then Some (n - 55)
      else None)"

definition in_base :: "nat \<Rightarrow> char \<Rightarrow> bool" where
  "in_base b c = (case digit_val c of None \<Rightarrow> False | Some d \<Rightarrow> d < b)"

definition digits_value :: "nat \<Rightarrow> string \<Rightarrow> int" where
  "digits_value b ds =
     foldl (\<lambda>acc c. acc * int b + (case digit_val c of None \<Rightarrow> 0 | Some d \<Rightarrow> int d)) 0 ds"

text \<open>
  An optional sign in front of the digits: whether it is a minus, and how many characters
  it takes.
\<close>

definition sign_of :: "string \<Rightarrow> bool \<times> nat" where
  "sign_of s =
     (case s of
        [] \<Rightarrow> (False, 0)
      | c # _ \<Rightarrow> if c = CHR ''-'' then (True, 1) else if c = CHR ''+'' then (False, 1)
                 else (False, 0))"

text \<open>
  The base that \<^verbatim>\<open>strtol\<close> reads in, and the length of the \<^verbatim>\<open>0x\<close> prefix it skips. The
  prefix counts only when a hexadecimal digit follows it; otherwise the leading zero is
  the number.
\<close>

definition base_prefix :: "nat \<Rightarrow> string \<Rightarrow> nat \<times> nat" where
  "base_prefix base s =
     (case s of
        c0 # cx # d # _ \<Rightarrow>
          if (base = 0 \<or> base = 16) \<and> c0 = CHR ''0'' \<and> (cx = CHR ''x'' \<or> cx = CHR ''X'')
             \<and> in_base 16 d
          then (16, 2)
          else if base = 0 then (if c0 = CHR ''0'' then (8, 0) else (10, 0))
          else (base, 0)
      | c0 # _ \<Rightarrow>
          if base = 0 then (if c0 = CHR ''0'' then (8, 0) else (10, 0)) else (base, 0)
      | [] \<Rightarrow> (if base = 0 then 10 else base, 0))"

text \<open>
  \<^verbatim>\<open>strtol\<close> and \<^verbatim>\<open>strtoll\<close> with the range \<open>lo..hi\<close> of the result type. The result is
  the value, the offset of \<^verbatim>\<open>end\<close> from the start of the text, and whether \<^verbatim>\<open>errno\<close>
  was set to \<^verbatim>\<open>ERANGE\<close>. When no digit is found nothing is converted: the value is 0 and
  \<^verbatim>\<open>end\<close> is the start of the text.
\<close>

definition strto_signed :: "int \<Rightarrow> int \<Rightarrow> nat \<Rightarrow> string \<Rightarrow> int \<times> nat \<times> bool" where
  "strto_signed lo hi base str =
     (let ws = length (takeWhile isspace str);
          s1 = dropWhile isspace str;
          (neg, sg) = sign_of s1;
          s2 = drop sg s1;
          (b, pre) = base_prefix base s2;
          ds = takeWhile (in_base b) (drop pre s2);
          v = digits_value b ds;
          sv = (if neg then - v else v);
          e = ws + sg + pre + length ds
      in if ds = [] then (0, 0, False)
         else if hi < sv then (hi, e, True)
         else if sv < lo then (lo, e, True)
         else (sv, e, False))"

definition LLONG_MAX :: int where "LLONG_MAX = 2 ^ 63 - 1"
definition LLONG_MIN :: int where "LLONG_MIN = - (2 ^ 63)"
definition LONG_MAX :: int where "LONG_MAX = 2 ^ 63 - 1"
definition LONG_MIN :: int where "LONG_MIN = - (2 ^ 63)"

definition strtoll :: "string \<Rightarrow> nat \<Rightarrow> int \<times> nat \<times> bool" where
  "strtoll str base = strto_signed LLONG_MIN LLONG_MAX base str"

definition strtol :: "string \<Rightarrow> nat \<Rightarrow> int \<times> nat \<times> bool" where
  "strtol str base = strto_signed LONG_MIN LONG_MAX base str"

subsection \<open>sscanf\<close>

text \<open>
  The value that the conversion \<^verbatim>\<open>%u\<close> stores into an \<^verbatim>\<open>unsigned int\<close>: the digits are
  read as \<^verbatim>\<open>strtoul\<close> reads them (saturating at \<^verbatim>\<open>ULONG_MAX\<close>, a minus sign negating
  modulo \<open>2 ^ 64\<close>) and the result is cut to 32 bits. ISO C leaves the stored value
  undefined when the number does not fit; this is what glibc stores.
\<close>

definition store_uint :: "bool \<Rightarrow> int \<Rightarrow> 32 word" where
  "store_uint neg v =
     (if 2 ^ 64 - 1 < v then - 1 else if neg then - word_of_int v else word_of_int v)"

text \<open>
  \<^verbatim>\<open>%u\<close> on input whose leading white space is already skipped: an optional sign and the
  longest run of decimal digits, at least one. The result is the stored value and the
  input that is left.
\<close>

definition scan_uint :: "string \<Rightarrow> (32 word \<times> string) option" where
  "scan_uint s =
     (let (neg, sg) = sign_of s;
          s1 = drop sg s;
          ds = takeWhile isdigit s1
      in if ds = [] then None
         else Some (store_uint neg (digits_value 10 ds), dropWhile isdigit s1))"

text \<open>
  A format is a list of directives. A conversion carries the assignment through its
  pointer argument as an update of the caller's state \<open>'st\<close>, so that what a failed call
  has already stored stays stored, as in C. \<open>Lit\<close> is an ordinary (non-white-space)
  character of the format.
\<close>

datatype 'st directive =
    Lit char
  | ConvC "char \<Rightarrow> 'st \<Rightarrow> 'st"
  | ConvU "32 word \<Rightarrow> 'st \<Rightarrow> 'st"

definition EOF :: int where "EOF = - 1"

text \<open>
  \<open>sscanf_run ds s n st\<close>: the directives left, the input left, the number of
  assignments made so far, the state. The result is the return value of \<^verbatim>\<open>sscanf\<close> and
  the state. Running out of input is an input failure: it returns \<^verbatim>\<open>EOF\<close> when nothing
  has been converted yet, the count otherwise. \<^verbatim>\<open>%c\<close> does not skip white space,
  \<^verbatim>\<open>%u\<close> does.
\<close>

fun sscanf_run :: "'st directive list \<Rightarrow> string \<Rightarrow> nat \<Rightarrow> 'st \<Rightarrow> int \<times> 'st" where
  "sscanf_run [] s n st = (int n, st)"
| "sscanf_run (Lit c # ds) s n st =
     (case s of
        [] \<Rightarrow> (if n = 0 then EOF else int n, st)
      | x # xs \<Rightarrow> if x = c then sscanf_run ds xs n st else (int n, st))"
| "sscanf_run (ConvC put # ds) s n st =
     (case s of
        [] \<Rightarrow> (if n = 0 then EOF else int n, st)
      | x # xs \<Rightarrow> sscanf_run ds xs (Suc n) (put x st))"
| "sscanf_run (ConvU put # ds) s n st =
     (let s1 = dropWhile isspace s
      in if s1 = [] then (if n = 0 then EOF else int n, st)
         else case scan_uint s1 of
                None \<Rightarrow> (int n, st)
              | Some (v, rest) \<Rightarrow> sscanf_run ds rest (Suc n) (put v st))"

definition sscanf :: "string \<Rightarrow> 'st directive list \<Rightarrow> 'st \<Rightarrow> int \<times> 'st" where
  "sscanf str fmt st = sscanf_run fmt str 0 st"

subsection \<open>Floating-point values\<close>

text \<open>
  A \<^verbatim>\<open>float\<close> is the rational it denotes (the sign of a zero is not represented), an
  infinity (\<open>True\<close> for the negative one) or a NaN.
\<close>

datatype c_float = Float rat | Float_Inf bool | Float_NaN

section \<open>Error codes\<close>

text \<open>
  The values of \<^verbatim>\<open>errno.h\<close>, the same on Linux, the BSDs, macOS and Windows. Functions
  return them negated.
\<close>

definition ENOENT :: int where "ENOENT = 2"
definition ENOMEM :: int where "ENOMEM = 12"
definition EINVAL :: int where "EINVAL = 22"

section \<open>Memory allocation\<close>

text \<open>
  \<^verbatim>\<open>zalloc\<close>, \<^verbatim>\<open>iio_strdup\<close> and \<^verbatim>\<open>realloc\<close> may return \<^verbatim>\<open>NULL\<close>. The heap is the number
  of allocation requests that will still succeed; a request made at 0 fails. Every
  failed request in xml.c abandons the build, so this covers every way in which the
  allocator can fail the code.
\<close>

type_synonym heap = nat

definition alloc :: "heap \<Rightarrow> heap option" where
  "alloc h = (if h = 0 then None else Some (h - 1))"

definition iio_strdup :: "string \<Rightarrow> heap \<Rightarrow> string option \<times> heap" where
  "iio_strdup str h = (case alloc h of None \<Rightarrow> (None, h) | Some h' \<Rightarrow> (Some str, h'))"

section \<open>The data model of iio-private.h\<close>

text \<open>
  \<^verbatim>\<open>struct iio_data_format\<close> is declared in the public header; its fields are the ones
  xml.c assigns (\<open>length_f\<close> is the field \<^verbatim>\<open>length\<close>). The three sizes and the repeat
  count are \<^verbatim>\<open>unsigned int\<close>.
\<close>

record iio_data_format =
  length_f :: "32 word"
  bits :: "32 word"
  shift :: "32 word"
  is_signed :: bool
  is_fully_defined :: bool
  is_be :: bool
  with_scale :: bool
  scale :: c_float
  repeat :: "32 word"

record iio_channel_attr =
  name :: string
  filename :: string

text \<open>
  \<^verbatim>\<open>struct iio_channel\<close>. A \<^verbatim>\<open>char *\<close> that may be \<^verbatim>\<open>NULL\<close> is a \<open>string option\<close>; an
  array with its count (\<^verbatim>\<open>attrs\<close>, \<^verbatim>\<open>nb_attrs\<close>) is a list; \<^verbatim>\<open>index\<close> is a \<^verbatim>\<open>long\<close>. The
  back pointer \<^verbatim>\<open>dev\<close> and the fields that xml.c never touches (\<^verbatim>\<open>pdata\<close>,
  \<^verbatim>\<open>userdata\<close>, \<^verbatim>\<open>modifier\<close>, \<^verbatim>\<open>type\<close>, \<^verbatim>\<open>number\<close>) are not represented.
\<close>

record iio_channel =
  is_output :: bool
  is_scan_element :: bool
  format :: iio_data_format
  chn_name :: "string option"
  chn_id :: "string option"
  index :: int
  chn_attrs :: "iio_channel_attr list"

text \<open>
  \<^verbatim>\<open>struct iio_device\<close>, likewise: each \<^verbatim>\<open>struct iio_dev_attrs\<close> is the list of its names;
  \<^verbatim>\<open>ctx\<close>, \<^verbatim>\<open>pdata\<close>, \<^verbatim>\<open>userdata\<close> and \<^verbatim>\<open>mask\<close> are not represented.
\<close>

record iio_device =
  dev_name :: "string option"
  dev_id :: "string option"
  dev_label :: "string option"
  dev_attrs :: "string list"
  buffer_attrs :: "string list"
  debug_attrs :: "string list"
  channels :: "iio_channel list"

text \<open>
  \<^verbatim>\<open>struct iio_context_params\<close> is declared in the public header and only copied by
  xml.c: a parameter block is an opaque number.
\<close>

type_synonym iio_context_params = nat

text \<open>
  \<^verbatim>\<open>struct iio_context\<close>: \<^verbatim>\<open>major\<close> and \<^verbatim>\<open>minor\<close> are \<^verbatim>\<open>unsigned int\<close>; the parallel arrays
  \<^verbatim>\<open>attrs\<close> and \<^verbatim>\<open>values\<close> are one list of pairs; \<^verbatim>\<open>pdata\<close>, \<^verbatim>\<open>ops\<close>, \<^verbatim>\<open>xml\<close> and \<^verbatim>\<open>lib\<close>
  are not represented.
\<close>

record iio_context =
  ctx_name :: string
  description :: "string option"
  major :: "32 word"
  minor :: "32 word"
  git_tag :: "string option"
  devices :: "iio_device list"
  ctx_attrs :: "(string \<times> string) list"
  params :: iio_context_params

text \<open>What \<^verbatim>\<open>zalloc\<close> returns: every byte zero.\<close>

definition zero_format :: iio_data_format where
  "zero_format =
     \<lparr>length_f = 0, bits = 0, shift = 0, is_signed = False, is_fully_defined = False,
      is_be = False, with_scale = False, scale = Float 0, repeat = 0\<rparr>"

definition zero_channel :: iio_channel where
  "zero_channel =
     \<lparr>is_output = False, is_scan_element = False, format = zero_format, chn_name = None,
      chn_id = None, index = 0, chn_attrs = []\<rparr>"

definition zero_device :: iio_device where
  "zero_device =
     \<lparr>dev_name = None, dev_id = None, dev_label = None, dev_attrs = [], buffer_attrs = [],
      debug_attrs = [], channels = []\<rparr>"

section \<open>Functions that xml.c calls and other files define\<close>

text \<open>
  iio-private.h declares them; their definitions are in files of the library other
  than xml.c. What they and \<^verbatim>\<open>strtof\<close> do is a parameter of the model, so that a theorem
  about xml.c holds whatever they do. A function that returns \<^verbatim>\<open>int\<close> and updates its
  first argument in place returns the \<^verbatim>\<open>int\<close>, the updated argument and the heap.
  \<open>dev_registry\<close> says which \<^verbatim>\<open>struct iio_dev_attrs\<close> of the device
  \<^verbatim>\<open>add_iio_dev_attr\<close> is given. \<^verbatim>\<open>strtof\<close> returns the value, the offset of \<^verbatim>\<open>end\<close> and
  whether \<^verbatim>\<open>errno\<close> was set to \<^verbatim>\<open>ERANGE\<close>. \<^verbatim>\<open>iio_context_create_from_backend\<close> is always
  called with the XML backend, and returns the context or, as \<open>Inl\<close>, the error that
  its result encodes.
\<close>

datatype dev_registry = Reg_attrs | Reg_debug_attrs | Reg_buffer_attrs

record collab =
  strtof :: "string \<Rightarrow> c_float \<times> nat \<times> bool"
  iio_channel_init_finalize :: "iio_channel \<Rightarrow> iio_channel"
  add_iio_dev_attr ::
    "iio_device \<Rightarrow> dev_registry \<Rightarrow> string \<Rightarrow> string \<Rightarrow> heap \<Rightarrow> int \<times> iio_device \<times> heap"
  iio_context_create_from_backend :: "string option \<Rightarrow> heap \<Rightarrow> (int + iio_context) \<times> heap"
  iio_context_add_attr ::
    "iio_context \<Rightarrow> string \<Rightarrow> string \<Rightarrow> heap \<Rightarrow> int \<times> iio_context \<times> heap"
  iio_context_add_device ::
    "iio_context \<Rightarrow> iio_device \<Rightarrow> heap \<Rightarrow> int \<times> iio_context \<times> heap"
  iio_context_init :: "iio_context \<Rightarrow> heap \<Rightarrow> int \<times> iio_context \<times> heap"

section \<open>The document tree\<close>

text \<open>
  What xml.c reads of libxml2's tree: an attribute is its name and the content of its
  first child (\<^verbatim>\<open>attr->children->content\<close>); an element is its name, its attributes
  (\<^verbatim>\<open>properties\<close>) in order and its children in order. A text node is a child called
  \<^verbatim>\<open>text\<close>.
\<close>

type_synonym xmlAttr = "string \<times> string"

datatype xmlNode =
  XmlNode (node_name: string) (properties: "xmlAttr list") (children: "xmlNode list")

section \<open>xml.c\<close>

subsection \<open>setup\_scan\_element\<close>

text \<open>
  The variables that the two \<^verbatim>\<open>sscanf\<close> calls assign: the locals \<^verbatim>\<open>e\<close> and \<^verbatim>\<open>s\<close>
  (\<open>None\<close> while uninitialised) and \<^verbatim>\<open>chn->format\<close>.
\<close>

record format_vars =
  var_e :: "char option"
  var_s :: "char option"
  var_format :: iio_data_format

definition put_e :: "char \<Rightarrow> format_vars \<Rightarrow> format_vars" where
  "put_e c v = v\<lparr>var_e := Some c\<rparr>"

definition put_s :: "char \<Rightarrow> format_vars \<Rightarrow> format_vars" where
  "put_s c v = v\<lparr>var_s := Some c\<rparr>"

definition put_bits :: "32 word \<Rightarrow> format_vars \<Rightarrow> format_vars" where
  "put_bits w v = v\<lparr>var_format := (var_format v)\<lparr>bits := w\<rparr>\<rparr>"

definition put_length :: "32 word \<Rightarrow> format_vars \<Rightarrow> format_vars" where
  "put_length w v = v\<lparr>var_format := (var_format v)\<lparr>length_f := w\<rparr>\<rparr>"

definition put_repeat :: "32 word \<Rightarrow> format_vars \<Rightarrow> format_vars" where
  "put_repeat w v = v\<lparr>var_format := (var_format v)\<lparr>repeat := w\<rparr>\<rparr>"

definition put_shift :: "32 word \<Rightarrow> format_vars \<Rightarrow> format_vars" where
  "put_shift w v = v\<lparr>var_format := (var_format v)\<lparr>shift := w\<rparr>\<rparr>"

text \<open>The format \<^verbatim>\<open>"%ce:%c%u/%uX%u>>%u"\<close> with its six pointer arguments.\<close>

definition fmt_repeat :: "format_vars directive list" where
  "fmt_repeat =
     [ConvC put_e, Lit CHR ''e'', Lit CHR '':'', ConvC put_s, ConvU put_bits, Lit CHR ''/'',
      ConvU put_length, Lit CHR ''X'', ConvU put_repeat, Lit CHR ''>'', Lit CHR ''>'',
      ConvU put_shift]"

text \<open>The format \<^verbatim>\<open>"%ce:%c%u/%u>>%u"\<close> with its five pointer arguments.\<close>

definition fmt_plain :: "format_vars directive list" where
  "fmt_plain =
     [ConvC put_e, Lit CHR ''e'', Lit CHR '':'', ConvC put_s, ConvU put_bits, Lit CHR ''/'',
      ConvU put_length, Lit CHR ''>'', Lit CHR ''>'', ConvU put_shift]"

text \<open>
  The three branches of the attribute loop (lines 111-119, 120-154, 155-167). Each
  returns what \<^verbatim>\<open>setup_scan_element\<close> returns when the branch returns (a negative
  value), or 0 when the loop goes on, and the channel as the branch leaves it. The cast
  of the index to \<^verbatim>\<open>long\<close> changes nothing where \<^verbatim>\<open>long\<close> has 64 bits.
\<close>

definition setup_index :: "string \<Rightarrow> iio_channel \<Rightarrow> int \<times> iio_channel" where
  "setup_index content chn =
     (let (val, end_off, erange) = strtoll content 0
      in if end_off = 0 \<or> val < 0 \<or> erange then (- EINVAL, chn)
         else (0, chn\<lparr>index := val\<rparr>))"

definition setup_format :: "string \<Rightarrow> iio_channel \<Rightarrow> int \<times> iio_channel" where
  "setup_format content chn =
     (let v0 = \<lparr>var_e = None, var_s = None, var_format = format chn\<rparr>;
          (ok, v) =
            (if CHR ''X'' \<in> set content
             then (let (err, v1) = sscanf content fmt_repeat v0 in (err = 6, v1))
             else (let (err, v1) =
                         sscanf content fmt_plain
                           (v0\<lparr>var_format := (format chn)\<lparr>repeat := 1\<rparr>\<rparr>)
                   in (err = 5, v1)));
          f = var_format v
      in if \<not> ok then (- EINVAL, chn\<lparr>format := f\<rparr>)
         else (0, chn\<lparr>format := f
                 \<lparr>is_be := (var_e v = Some CHR ''b''),
                  is_signed := (var_s v = Some CHR ''s'' \<or> var_s v = Some CHR ''S''),
                  is_fully_defined :=
                    (var_s v = Some CHR ''S'' \<or> var_s v = Some CHR ''U'' \<or> bits f = length_f f)\<rparr>\<rparr>))"

definition setup_scale :: "collab \<Rightarrow> string \<Rightarrow> iio_channel \<Rightarrow> int \<times> iio_channel" where
  "setup_scale H content chn =
     (let (val, end_off, erange) = strtof H content
      in if end_off = 0 \<or> erange
         then (- EINVAL, chn\<lparr>format := (format chn)\<lparr>with_scale := False\<rparr>\<rparr>)
         else (0, chn\<lparr>format := (format chn)\<lparr>with_scale := True, scale := val\<rparr>\<rparr>))"

fun setup_scan_element :: "collab \<Rightarrow> iio_channel \<Rightarrow> xmlAttr list \<Rightarrow> int \<times> iio_channel" where
  "setup_scan_element H chn [] = (0, chn)"
| "setup_scan_element H chn ((nm, content) # rest) =
     (let (rc, chn') =
            (if nm = ''index'' then setup_index content chn
             else if nm = ''format'' then setup_format content chn
             else if nm = ''scale'' then setup_scale H content chn
             else (0, chn))
      in if rc < 0 then (rc, chn') else setup_scan_element H chn' rest)"

subsection \<open>add\_attr\_to\_channel\<close>

text \<open>
  The attribute loop of \<^verbatim>\<open>add_attr_to_channel\<close> over the locals \<^verbatim>\<open>name\<close> and
  \<^verbatim>\<open>filename\<close>: \<open>Inl\<close> when a copy could not be allocated and the function leaves
  through \<^verbatim>\<open>err_free\<close> with \<^verbatim>\<open>err\<close> still \<^verbatim>\<open>-ENOMEM\<close>.
\<close>

fun chn_attr_props ::
  "xmlAttr list \<Rightarrow> string option \<times> string option \<Rightarrow> heap
   \<Rightarrow> (int + string option \<times> string option) \<times> heap" where
  "chn_attr_props [] nf h = (Inr nf, h)"
| "chn_attr_props ((an, content) # rest) (nm, fn) h =
     (if an = ''name'' then
        (case iio_strdup content h of
           (None, h') \<Rightarrow> (Inl (- ENOMEM), h')
         | (Some c, h') \<Rightarrow> chn_attr_props rest (Some c, fn) h')
      else if an = ''filename'' then
        (case iio_strdup content h of
           (None, h') \<Rightarrow> (Inl (- ENOMEM), h')
         | (Some c, h') \<Rightarrow> chn_attr_props rest (nm, Some c) h')
      else chn_attr_props rest (nm, fn) h)"

definition add_attr_to_channel :: "iio_channel \<Rightarrow> xmlNode \<Rightarrow> heap \<Rightarrow> int \<times> iio_channel \<times> heap" where
  "add_attr_to_channel chn n h =
     (case chn_attr_props (properties n) (None, None) h of
        (Inl err, h1) \<Rightarrow> (err, chn, h1)
      | (Inr (nm, fn), h1) \<Rightarrow>
          (case nm of
             None \<Rightarrow> (- EINVAL, chn, h1)
           | Some nm' \<Rightarrow>
               (case (case fn of Some f \<Rightarrow> (Some f, h1) | None \<Rightarrow> iio_strdup nm' h1) of
                  (None, h2) \<Rightarrow> (- ENOMEM, chn, h2)
                | (Some fn', h2) \<Rightarrow>
                    (case alloc h2 of
                       None \<Rightarrow> (- ENOMEM, chn, h2)
                     | Some h3 \<Rightarrow>
                         (0, chn\<lparr>chn_attrs := chn_attrs chn @ [\<lparr>name = nm', filename = fn'\<rparr>]\<rparr>,
                          h3)))))"

subsection \<open>add\_attr\_to\_device\<close>

text \<open>
  \<^verbatim>\<open>enum iio_attr_type\<close> is declared in the public header; \<open>IIO_ATTR_TYPE_other\<close> stands
  for any enumerator besides the three that the \<^verbatim>\<open>switch\<close> names.
\<close>

datatype iio_attr_type =
  IIO_ATTR_TYPE_DEVICE | IIO_ATTR_TYPE_DEBUG | IIO_ATTR_TYPE_BUFFER | IIO_ATTR_TYPE_other

fun dev_attr_name :: "xmlAttr list \<Rightarrow> string option \<Rightarrow> string option" where
  "dev_attr_name [] nm = nm"
| "dev_attr_name ((an, content) # rest) nm =
     (if an = ''name'' then dev_attr_name rest (Some content) else dev_attr_name rest nm)"

definition add_attr_to_device ::
  "collab \<Rightarrow> iio_device \<Rightarrow> xmlNode \<Rightarrow> iio_attr_type \<Rightarrow> heap \<Rightarrow> int \<times> iio_device \<times> heap" where
  "add_attr_to_device H dev n ty h =
     (case dev_attr_name (properties n) None of
        None \<Rightarrow> (- EINVAL, dev, h)
      | Some nm \<Rightarrow>
          (case ty of
             IIO_ATTR_TYPE_DEBUG \<Rightarrow> add_iio_dev_attr H dev Reg_debug_attrs nm '' debug'' h
           | IIO_ATTR_TYPE_DEVICE \<Rightarrow> add_iio_dev_attr H dev Reg_attrs nm [] h
           | IIO_ATTR_TYPE_BUFFER \<Rightarrow> add_iio_dev_attr H dev Reg_buffer_attrs nm '' buffer'' h
           | IIO_ATTR_TYPE_other \<Rightarrow> (- EINVAL, dev, h)))"

subsection \<open>create\_channel\<close>

text \<open>
  The two loops of \<^verbatim>\<open>create_channel\<close>, over the attributes and over the children; each
  returns \<open>Inl\<close> of the error when the function leaves through \<^verbatim>\<open>err_free_channel\<close>.
  The device is used for nothing but the log and the back pointer and is no argument
  here.
\<close>

fun channel_props :: "xmlAttr list \<Rightarrow> iio_channel \<Rightarrow> heap \<Rightarrow> (int + iio_channel) \<times> heap" where
  "channel_props [] chn h = (Inr chn, h)"
| "channel_props ((an, content) # rest) chn h =
     (if an = ''name'' then
        (case iio_strdup content h of
           (None, h') \<Rightarrow> (Inl (- ENOMEM), h')
         | (Some c, h') \<Rightarrow> channel_props rest (chn\<lparr>chn_name := Some c\<rparr>) h')
      else if an = ''id'' then
        (case iio_strdup content h of
           (None, h') \<Rightarrow> (Inl (- ENOMEM), h')
         | (Some c, h') \<Rightarrow> channel_props rest (chn\<lparr>chn_id := Some c\<rparr>) h')
      else if an = ''type'' then
        (if content = ''output'' then channel_props rest (chn\<lparr>is_output := True\<rparr>) h
         else channel_props rest chn h)
      else channel_props rest chn h)"

fun channel_children ::
  "collab \<Rightarrow> xmlNode list \<Rightarrow> iio_channel \<Rightarrow> heap \<Rightarrow> (int + iio_channel) \<times> heap" where
  "channel_children H [] chn h = (Inr chn, h)"
| "channel_children H (n # rest) chn h =
     (if node_name n = ''attribute'' then
        (case add_attr_to_channel chn n h of
           (err, chn', h') \<Rightarrow>
             if err < 0 then (Inl err, h') else channel_children H rest chn' h')
      else if node_name n = ''scan-element'' then
        (case setup_scan_element H (chn\<lparr>is_scan_element := True\<rparr>) (properties n) of
           (err, chn') \<Rightarrow>
             if err < 0 then (Inl err, h) else channel_children H rest chn' h)
      else channel_children H rest chn h)"

definition create_channel :: "collab \<Rightarrow> xmlNode \<Rightarrow> heap \<Rightarrow> (int + iio_channel) \<times> heap" where
  "create_channel H n h =
     (case alloc h of
        None \<Rightarrow> (Inl (- ENOMEM), h)
      | Some h0 \<Rightarrow>
          (case channel_props (properties n) (zero_channel\<lparr>index := - ENOENT\<rparr>) h0 of
             (Inl err, h1) \<Rightarrow> (Inl err, h1)
           | (Inr chn, h1) \<Rightarrow>
               if chn_id chn = None then (Inl (- EINVAL), h1)
               else (case channel_children H (children n) chn h1 of
                       (Inl err, h2) \<Rightarrow> (Inl err, h2)
                     | (Inr chn', h2) \<Rightarrow> (Inr (iio_channel_init_finalize H chn'), h2))))"

subsection \<open>create\_device\<close>

fun device_props :: "xmlAttr list \<Rightarrow> iio_device \<Rightarrow> heap \<Rightarrow> (int + iio_device) \<times> heap" where
  "device_props [] dev h = (Inr dev, h)"
| "device_props ((an, content) # rest) dev h =
     (if an = ''name'' then
        (case iio_strdup content h of
           (None, h') \<Rightarrow> (Inl (- ENOMEM), h')
         | (Some c, h') \<Rightarrow> device_props rest (dev\<lparr>dev_name := Some c\<rparr>) h')
      else if an = ''label'' then
        (case iio_strdup content h of
           (None, h') \<Rightarrow> (Inl (- ENOMEM), h')
         | (Some c, h') \<Rightarrow> device_props rest (dev\<lparr>dev_label := Some c\<rparr>) h')
      else if an = ''id'' then
        (case iio_strdup content h of
           (None, h') \<Rightarrow> (Inl (- ENOMEM), h')
         | (Some c, h') \<Rightarrow> device_props rest (dev\<lparr>dev_id := Some c\<rparr>) h')
      else device_props rest dev h)"

fun device_children ::
  "collab \<Rightarrow> xmlNode list \<Rightarrow> iio_device \<Rightarrow> heap \<Rightarrow> (int + iio_device) \<times> heap" where
  "device_children H [] dev h = (Inr dev, h)"
| "device_children H (n # rest) dev h =
     (if node_name n = ''channel'' then
        (case create_channel H n h of
           (Inl err, h') \<Rightarrow> (Inl err, h')
         | (Inr chn, h') \<Rightarrow>
             (case alloc h' of
                None \<Rightarrow> (Inl (- ENOMEM), h')
              | Some h'' \<Rightarrow>
                  device_children H rest (dev\<lparr>channels := channels dev @ [chn]\<rparr>) h''))
      else if node_name n = ''attribute'' then
        (case add_attr_to_device H dev n IIO_ATTR_TYPE_DEVICE h of
           (err, dev', h') \<Rightarrow>
             if err < 0 then (Inl err, h') else device_children H rest dev' h')
      else if node_name n = ''debug-attribute'' then
        (case add_attr_to_device H dev n IIO_ATTR_TYPE_DEBUG h of
           (err, dev', h') \<Rightarrow>
             if err < 0 then (Inl err, h') else device_children H rest dev' h')
      else if node_name n = ''buffer-attribute'' then
        (case add_attr_to_device H dev n IIO_ATTR_TYPE_BUFFER h of
           (err, dev', h') \<Rightarrow>
             if err < 0 then (Inl err, h') else device_children H rest dev' h')
      else device_children H rest dev h)"

text \<open>As in \<^verbatim>\<open>create_channel\<close>, the context is used for the log and the back pointer only.\<close>

definition create_device :: "collab \<Rightarrow> xmlNode \<Rightarrow> heap \<Rightarrow> (int + iio_device) \<times> heap" where
  "create_device H n h =
     (case alloc h of
        None \<Rightarrow> (Inl (- ENOMEM), h)
      | Some h0 \<Rightarrow>
          (case device_props (properties n) zero_device h0 of
             (Inl err, h1) \<Rightarrow> (Inl err, h1)
           | (Inr dev, h1) \<Rightarrow>
               if dev_id dev = None then (Inl (- EINVAL), h1)
               else device_children H (children n) dev h1))"

subsection \<open>The context\<close>

fun context_attr_props ::
  "xmlAttr list \<Rightarrow> string option \<times> string option \<Rightarrow> string option \<times> string option" where
  "context_attr_props [] nv = nv"
| "context_attr_props ((an, content) # rest) (nm, val) =
     (if an = ''name'' then context_attr_props rest (Some content, val)
      else if an = ''value'' then context_attr_props rest (nm, Some content)
      else context_attr_props rest (nm, val))"

definition parse_context_attr ::
  "collab \<Rightarrow> iio_context \<Rightarrow> xmlNode \<Rightarrow> heap \<Rightarrow> int \<times> iio_context \<times> heap" where
  "parse_context_attr H ctx n h =
     (case context_attr_props (properties n) (None, None) of
        (Some nm, Some val) \<Rightarrow> iio_context_add_attr H ctx nm val h
      | _ \<Rightarrow> (- EINVAL, ctx, h))"

text \<open>
  The loop of \<^verbatim>\<open>iio_populate_xml_context_helper\<close> over the children of the root, then
  the call of \<^verbatim>\<open>iio_context_init\<close>.
\<close>

fun populate_children ::
  "collab \<Rightarrow> xmlNode list \<Rightarrow> iio_context \<Rightarrow> heap \<Rightarrow> int \<times> iio_context \<times> heap" where
  "populate_children H [] ctx h = iio_context_init H ctx h"
| "populate_children H (n # rest) ctx h =
     (if node_name n = ''context-attribute'' then
        (case parse_context_attr H ctx n h of
           (err, ctx', h') \<Rightarrow>
             if err \<noteq> 0 then (err, ctx', h') else populate_children H rest ctx' h')
      else if node_name n \<noteq> ''device'' then populate_children H rest ctx h
      else
        (case create_device H n h of
           (Inl err, h') \<Rightarrow> (err, ctx, h')
         | (Inr dev, h') \<Rightarrow>
             (case iio_context_add_device H ctx dev h' of
                (err, ctx', h'') \<Rightarrow>
                  if err \<noteq> 0 then (err, ctx', h'') else populate_children H rest ctx' h'')))"

definition iio_populate_xml_context_helper ::
  "collab \<Rightarrow> iio_context \<Rightarrow> xmlNode \<Rightarrow> heap \<Rightarrow> int \<times> iio_context \<times> heap" where
  "iio_populate_xml_context_helper H ctx rt h = populate_children H (children rt) ctx h"

text \<open>
  The locals that the attribute loop of \<^verbatim>\<open>iio_create_xml_context_helper\<close> assigns.
  \<^verbatim>\<open>strtol\<close> is called with base 10 and its value kept whatever follows the digits: a
  text that does not end there is only warned about.
\<close>

record root_vars =
  var_description :: "string option"
  var_git_tag :: "string option"
  var_major :: int
  var_minor :: int

fun root_props :: "xmlAttr list \<Rightarrow> root_vars \<Rightarrow> root_vars" where
  "root_props [] v = v"
| "root_props ((an, content) # rest) v =
     (if an = ''description'' then root_props rest (v\<lparr>var_description := Some content\<rparr>)
      else if an = ''version-major'' then
        root_props rest (v\<lparr>var_major := fst (strtol content 10)\<rparr>)
      else if an = ''version-minor'' then
        root_props rest (v\<lparr>var_minor := fst (strtol content 10)\<rparr>)
      else if an = ''version-git'' then root_props rest (v\<lparr>var_git_tag := Some content\<rparr>)
      else root_props rest v)"

text \<open>
  \<^verbatim>\<open>iio_create_xml_context_helper\<close> on the root element \<open>rt\<close> of the document. Storing a
  \<^verbatim>\<open>long\<close> into the \<^verbatim>\<open>unsigned int\<close> fields \<^verbatim>\<open>major\<close> and \<^verbatim>\<open>minor\<close> takes it modulo
  \<open>2 ^ 32\<close>.
\<close>

definition iio_create_xml_context_helper ::
  "collab \<Rightarrow> iio_context_params \<Rightarrow> xmlNode \<Rightarrow> heap \<Rightarrow> (int + iio_context) \<times> heap" where
  "iio_create_xml_context_helper H prm rt h =
     (if node_name rt \<noteq> ''context'' then (Inl (- EINVAL), h)
      else
        (let v = root_props (properties rt)
                   \<lparr>var_description = None, var_git_tag = None, var_major = 0, var_minor = 0\<rparr>
         in case iio_context_create_from_backend H (var_description v) h of
              (Inl err, h1) \<Rightarrow> (Inl err, h1)
            | (Inr ctx, h1) \<Rightarrow>
                (case (case var_git_tag v of
                         None \<Rightarrow> (Inr (ctx\<lparr>params := prm\<rparr>), h1)
                       | Some tag \<Rightarrow>
                           (case iio_strdup tag h1 of
                              (None, h2) \<Rightarrow> (Inl (- ENOMEM), h2)
                            | (Some t, h2) \<Rightarrow>
                                (Inr (ctx\<lparr>params := prm, major := word_of_int (var_major v),
                                          minor := word_of_int (var_minor v),
                                          git_tag := Some t\<rparr>), h2))) of
                   (Inl err, h2) \<Rightarrow> (Inl err, h2)
                 | (Inr ctx1, h2) \<Rightarrow>
                     (case iio_populate_xml_context_helper H ctx1 rt h2 of
                        (err, ctx2, h3) \<Rightarrow>
                          if err \<noteq> 0 then (Inl err, h3) else (Inr ctx2, h3)))))"

section \<open>The channels mask of iio-private.h\<close>

text \<open>
  \<^verbatim>\<open>struct iio_channels_mask\<close> is the array \<^verbatim>\<open>mask\<close> of \<^verbatim>\<open>words\<close> 32-bit words: the list
  of the words. \<^verbatim>\<open>BIT(x)\<close> is \<^verbatim>\<open>1 << x\<close>, taken as the 32-bit pattern that the mask
  operations combine it with. A bit number is an \<^verbatim>\<open>unsigned int\<close>.
\<close>

type_synonym iio_channels_mask = "32 word list"

definition BIT :: "nat \<Rightarrow> 32 word" where
  "BIT x = push_bit x 1"

definition BIT_MASK :: "nat \<Rightarrow> 32 word" where
  "BIT_MASK b = BIT (b mod 32)"

definition BIT_WORD :: "nat \<Rightarrow> nat" where
  "BIT_WORD b = b div 32"

text \<open>
  The three operations index the array without a check; \<open>None\<close> is the access outside
  the array, which C leaves undefined.
\<close>

definition iio_channels_mask_test_bit :: "iio_channels_mask \<Rightarrow> nat \<Rightarrow> bool option" where
  "iio_channels_mask_test_bit m b =
     (if BIT_WORD b < length m then Some (m ! BIT_WORD b AND BIT_MASK b \<noteq> 0) else None)"

definition iio_channels_mask_set_bit :: "iio_channels_mask \<Rightarrow> nat \<Rightarrow> iio_channels_mask option" where
  "iio_channels_mask_set_bit m b =
     (if BIT_WORD b < length m then Some (m[BIT_WORD b := m ! BIT_WORD b OR BIT_MASK b])
      else None)"

definition iio_channels_mask_clear_bit :: "iio_channels_mask \<Rightarrow> nat \<Rightarrow> iio_channels_mask option" where
  "iio_channels_mask_clear_bit m b =
     (if BIT_WORD b < length m
      then Some (m[BIT_WORD b := m ! BIT_WORD b AND NOT (BIT_MASK b)])
      else None)"

text \<open>
  Modelled from the spec: \<^verbatim>\<open>iio_create_channels_mask\<close>, declared in iio-private.h and
  defined in another file. "Allocates a zero-initialized bitset sized for
  \<open>channel_count\<close> bits", of \<open>ceil(channel_count / word_bits)\<close> words.
\<close>

definition iio_create_channels_mask :: "nat \<Rightarrow> iio_channels_mask" where
  "iio_create_channels_mask nb_channels = replicate ((nb_channels + 31) div 32) 0"

section \<open>A reference behaviour for the functions defined elsewhere\<close>

subsection \<open>strtof\<close>

text \<open>
  \<^verbatim>\<open>strtof\<close> after ISO C 7.22.1.3 in the "C" locale: white space, a sign, then
  \<^verbatim>\<open>inf\<close> or \<^verbatim>\<open>infinity\<close>, \<^verbatim>\<open>nan\<close> with an optional parenthesised sequence, a hexadecimal
  or a decimal floating constant, each in any case. ISO C leaves to the implementation
  how a value below the normal range is treated; the value and \<^verbatim>\<open>errno\<close> here are those of
  glibc 2.39 on x86-64 in the default rounding mode (\<open>round_binary32\<close> below).
\<close>

definition tolower :: "char \<Rightarrow> char" where
  "tolower c =
     (let n = (of_char c :: nat) in if 65 \<le> n \<and> n \<le> 90 then char_of (n + 32) else c)"

definition has_prefix_ci :: "string \<Rightarrow> string \<Rightarrow> bool" where
  "has_prefix_ci p s = (map tolower (take (length p) s) = p)"

definition is_nchar :: "char \<Rightarrow> bool" where
  "is_nchar c = (in_base 36 c \<or> c = CHR ''_'')"

text \<open>The length of the \<^verbatim>\<open>(n-char-sequence)\<close> that may follow \<^verbatim>\<open>nan\<close>.\<close>

definition nan_chars :: "string \<Rightarrow> nat" where
  "nan_chars s =
     (case s of
        [] \<Rightarrow> 0
      | c # r \<Rightarrow>
          if c = CHR ''('' then
            (let body = takeWhile is_nchar r
             in case drop (length body) r of
                  [] \<Rightarrow> 0
                | d # _ \<Rightarrow> if d = CHR '')'' then length body + 2 else 0)
          else 0)"

text \<open>
  The exponent part after the mantissa, introduced by \<open>mark\<close> (\<^verbatim>\<open>e\<close> or \<^verbatim>\<open>p\<close>): its value
  and its length, both 0 when there is none.
\<close>

definition scan_exponent :: "char \<Rightarrow> string \<Rightarrow> int \<times> nat" where
  "scan_exponent mark s =
     (case s of
        [] \<Rightarrow> (0, 0)
      | c # r \<Rightarrow>
          if tolower c = mark then
            (let (neg, sg) = sign_of r;
                 ds = takeWhile isdigit (drop sg r)
             in if ds = [] then (0, 0)
                else (if neg then - digits_value 10 ds else digits_value 10 ds,
                      1 + sg + length ds))
          else (0, 0))"

text \<open>
  A floating constant in base \<open>b\<close>: the value of its digits without the point, the
  number of digits after the point, the exponent, and its length.
\<close>

definition scan_real :: "nat \<Rightarrow> char \<Rightarrow> string \<Rightarrow> (int \<times> nat \<times> int \<times> nat) option" where
  "scan_real b mark s =
     (let ip = takeWhile (in_base b) s;
          r1 = drop (length ip) s;
          (fp, dot) =
            (case r1 of
               [] \<Rightarrow> ([], 0)
             | c # r \<Rightarrow> if c = CHR ''.'' then (takeWhile (in_base b) r, 1) else ([], 0));
          n = length ip + dot + length fp;
          (ex, en) = scan_exponent mark (drop n s)
      in if ip = [] \<and> fp = [] then None
         else Some (digits_value b (ip @ fp), length fp, ex, n + en))"

text \<open>The integer part of the binary logarithm of a positive integer.\<close>

function ilog2 :: "int \<Rightarrow> int" where
  "ilog2 n = (if n < 2 then 0 else 1 + ilog2 (n div 2))"
  by pat_completeness auto
termination
  by (relation "measure nat") auto

text \<open>
  The \<^verbatim>\<open>float\<close> that glibc returns for the exact value \<open>a / b\<close> (\<open>0 \<le> a\<close>, \<open>0 < b\<close>) with the
  sign \<open>neg\<close>, and whether it sets \<^verbatim>\<open>ERANGE\<close>, as \<^verbatim>\<open>round_and_return\<close> of its
  \<^verbatim>\<open>strtod_l.c\<close> computes them. The value is first cut to the 24 leading bits \<open>m\<close> with
  the exponent \<open>e\<close>; \<open>half\<close> is the next bit and \<open>sticky\<close> says that a bit after it is
  set. Above the normal range, and below half the least subnormal, the result is an
  infinity or zero with \<^verbatim>\<open>ERANGE\<close>. In the normal range the value is rounded to the
  nearest, ties to even, from \<open>half\<close> and \<open>sticky\<close>. Below it, \<open>m\<close> is shifted right to
  the subnormal exponent and rounded from the bits that the shift drops and from
  \<open>sticky\<close>; the former \<open>half\<close> bit is not looked at again (which is glibc's behaviour
  up to version 2.40). \<^verbatim>\<open>ERANGE\<close> is then set when one of those bits is set, unless the
  value, rounded to 24 bits with its own exponent, reaches the least normal number.
\<close>

definition round_binary32 :: "bool \<Rightarrow> int \<Rightarrow> int \<Rightarrow> c_float \<times> bool" where
  "round_binary32 neg a b =
     (if a = 0 then (Float 0, False)
      else
        (let k = ilog2 a - ilog2 b;
             e = (if (if 0 \<le> k then 2 ^ nat k * b \<le> a else b \<le> 2 ^ nat (- k) * a)
                  then k else k - 1)
         in if 127 < e then (Float_Inf neg, True)
            else if e < - 150 then (Float 0, True)
            else
              (let sh = 23 - e;
                   num = (if 0 \<le> sh then a * 2 ^ nat sh else a);
                   den = (if 0 \<le> sh then b else b * 2 ^ nat (- sh));
                   m = num div den;
                   r = num mod den;
                   half = (den \<le> 2 * r);
                   sticky = (r \<noteq> 0 \<and> 2 * r \<noteq> den);
                   sub = (e < - 126);
                   shift = nat (- 126 - e);
                   tiny = (sub \<and> \<not> (shift = 1 \<and> half \<and> (sticky \<or> odd m)
                                        \<and> m + 1 = 2 ^ 24));
                   half2 = (if sub then odd (m div 2 ^ (shift - 1)) else half);
                   more2 = (if sub then sticky \<or> m mod 2 ^ (shift - 1) \<noteq> 0 else sticky);
                   m2 = (if sub then m div 2 ^ shift else m);
                   e2 = (if sub then - 126 else e);
                   n = (if half2 \<and> (more2 \<or> odd m2) then m2 + 1 else m2);
                   ulp = (if 23 \<le> e2 then 2 ^ nat (e2 - 23) else 1 / 2 ^ nat (23 - e2) :: rat)
               in if e2 = 127 \<and> n = 2 ^ 24 then (Float_Inf neg, True)
                  else (Float ((if neg then - 1 else 1) * of_int n * ulp),
                        tiny \<and> (half2 \<or> more2)))))"

definition strtof_C :: "string \<Rightarrow> c_float \<times> nat \<times> bool" where
  "strtof_C str =
     (let ws = length (takeWhile isspace str);
          s1 = dropWhile isspace str;
          (neg, sg) = sign_of s1;
          s2 = drop sg s1;
          off = ws + sg;
          hex = (case s2 of
                   c0 # cx # r \<Rightarrow>
                     if c0 = CHR ''0'' \<and> tolower cx = CHR ''x'' then scan_real 16 CHR ''p'' r
                     else None
                 | _ \<Rightarrow> None)
      in if has_prefix_ci ''infinity'' s2 then (Float_Inf neg, off + 8, False)
         else if has_prefix_ci ''inf'' s2 then (Float_Inf neg, off + 3, False)
         else if has_prefix_ci ''nan'' s2
           then (Float_NaN, off + 3 + nan_chars (drop 3 s2), False)
         else case hex of
                Some (m, fd, ex, n) \<Rightarrow>
                  (let e2 = ex - 4 * int fd;
                       (v, er) = round_binary32 neg (m * 2 ^ nat e2) (2 ^ nat (- e2))
                   in (v, off + 2 + n, er))
              | None \<Rightarrow>
                  (case scan_real 10 CHR ''e'' s2 of
                     Some (m, fd, ex, n) \<Rightarrow>
                       (let e10 = ex - int fd;
                            (v, er) = round_binary32 neg (m * 10 ^ nat e10) (10 ^ nat (- e10))
                        in (v, off + n, er))
                   | None \<Rightarrow> (Float 0, 0, False)))"

subsection \<open>The library functions\<close>

text \<open>
  Modelled from the spec: \<^verbatim>\<open>add_iio_dev_attr\<close>, defined outside xml.c. "An owned,
  ordered sequence of distinct attribute names. Insertion order is preserved, but
  insertion rejects an already-present name as a no-op success"; it fails with
  \<^verbatim>\<open>OutOfMemory\<close> only. The suffix names the registry in the log.
\<close>

definition spec_add_iio_dev_attr ::
  "iio_device \<Rightarrow> dev_registry \<Rightarrow> string \<Rightarrow> string \<Rightarrow> heap \<Rightarrow> int \<times> iio_device \<times> heap" where
  "spec_add_iio_dev_attr dev reg nm suffix h =
     (let names = (case reg of Reg_attrs \<Rightarrow> dev_attrs dev
                   | Reg_debug_attrs \<Rightarrow> debug_attrs dev
                   | Reg_buffer_attrs \<Rightarrow> buffer_attrs dev)
      in if nm \<in> set names then (0, dev, h)
         else case alloc h of
                None \<Rightarrow> (- ENOMEM, dev, h)
              | Some h' \<Rightarrow>
                  (0, (case reg of
                         Reg_attrs \<Rightarrow> dev\<lparr>dev_attrs := names @ [nm]\<rparr>
                       | Reg_debug_attrs \<Rightarrow> dev\<lparr>debug_attrs := names @ [nm]\<rparr>
                       | Reg_buffer_attrs \<Rightarrow> dev\<lparr>buffer_attrs := names @ [nm]\<rparr>), h'))"

text \<open>
  Modelled from the spec: \<^verbatim>\<open>iio_context_create_from_backend\<close>, defined outside xml.c.
  "Construct an empty Context from the chosen backend identity and the given
  description."
\<close>

definition spec_context_create :: "string option \<Rightarrow> heap \<Rightarrow> (int + iio_context) \<times> heap" where
  "spec_context_create descr h =
     (case alloc h of
        None \<Rightarrow> (Inl (- ENOMEM), h)
      | Some h' \<Rightarrow>
          (Inr \<lparr>ctx_name = ''xml'', description = descr, major = 0, minor = 0, git_tag = None,
                devices = [], ctx_attrs = [], params = 0\<rparr>, h'))"

text \<open>
  Modelled from the spec: \<^verbatim>\<open>iio_context_add_attr\<close>, defined outside xml.c. "Insert via
  the Context's attribute registry (duplicate key: last write is rejected, first
  occurrence wins, matching idempotent-insert semantics)."
\<close>

definition spec_context_add_attr ::
  "iio_context \<Rightarrow> string \<Rightarrow> string \<Rightarrow> heap \<Rightarrow> int \<times> iio_context \<times> heap" where
  "spec_context_add_attr ctx k v h =
     (if k \<in> fst ` set (ctx_attrs ctx) then (0, ctx, h)
      else case alloc h of
             None \<Rightarrow> (- ENOMEM, ctx, h)
           | Some h' \<Rightarrow> (0, ctx\<lparr>ctx_attrs := ctx_attrs ctx @ [(k, v)]\<rparr>, h'))"

text \<open>
  Modelled from the spec: \<^verbatim>\<open>iio_context_add_device\<close>, defined outside xml.c. A Context
  has an "owned list of Devices", in document order.
\<close>

definition spec_context_add_device ::
  "iio_context \<Rightarrow> iio_device \<Rightarrow> heap \<Rightarrow> int \<times> iio_context \<times> heap" where
  "spec_context_add_device ctx dev h =
     (case alloc h of
        None \<Rightarrow> (- ENOMEM, ctx, h)
      | Some h' \<Rightarrow> (0, ctx\<lparr>devices := devices ctx @ [dev]\<rparr>, h'))"

text \<open>
  Modelled from the spec: \<^verbatim>\<open>iio_context_init\<close> and \<^verbatim>\<open>iio_channel_init_finalize\<close>, defined
  outside xml.c. Finalisation "wires cross-references (e.g., numbering channels, linking
  mask size to final channel counts)": of the fields represented here it changes none.
\<close>

definition spec_context_init :: "iio_context \<Rightarrow> heap \<Rightarrow> int \<times> iio_context \<times> heap" where
  "spec_context_init ctx h = (0, ctx, h)"

definition spec_channel_init_finalize :: "iio_channel \<Rightarrow> iio_channel" where
  "spec_channel_init_finalize chn = chn"

definition spec_collab :: collab where
  "spec_collab =
     \<lparr>strtof = strtof_C,
      iio_channel_init_finalize = spec_channel_init_finalize,
      add_iio_dev_attr = spec_add_iio_dev_attr,
      iio_context_create_from_backend = spec_context_create,
      iio_context_add_attr = spec_context_add_attr,
      iio_context_add_device = spec_context_add_device,
      iio_context_init = spec_context_init\<rparr>"

section \<open>The document schema\<close>

text \<open>
  The schema of the specification (section 6) names, for each element, the attributes
  and the child elements that it knows; every other attribute and every other child,
  text nodes among them, is unknown there. \<open>strip_context\<close> removes from a document all
  that is unknown: from the root element, from each \<^verbatim>\<open>context-attribute\<close> and \<^verbatim>\<open>device\<close>
  in it, from each attribute element and \<^verbatim>\<open>channel\<close> of a device, and from each
  \<^verbatim>\<open>attribute\<close> and \<^verbatim>\<open>scan-element\<close> of a channel. An element for which the schema names
  no children keeps none.
\<close>

definition keep_attrs :: "string list \<Rightarrow> xmlAttr list \<Rightarrow> xmlAttr list" where
  "keep_attrs known as = filter (\<lambda>a. fst a \<in> set known) as"

definition keep_children :: "string list \<Rightarrow> xmlNode list \<Rightarrow> xmlNode list" where
  "keep_children known ns = filter (\<lambda>n. node_name n \<in> set known) ns"

definition strip_leaf :: "string list \<Rightarrow> xmlNode \<Rightarrow> xmlNode" where
  "strip_leaf known n = XmlNode (node_name n) (keep_attrs known (properties n)) []"

definition strip_channel :: "xmlNode \<Rightarrow> xmlNode" where
  "strip_channel n =
     XmlNode (node_name n) (keep_attrs [''name'', ''id'', ''type''] (properties n))
       (map (\<lambda>c. if node_name c = ''attribute'' then strip_leaf [''name'', ''filename''] c
                  else strip_leaf [''index'', ''format'', ''scale''] c)
          (keep_children [''attribute'', ''scan-element''] (children n)))"

definition strip_device :: "xmlNode \<Rightarrow> xmlNode" where
  "strip_device n =
     XmlNode (node_name n) (keep_attrs [''name'', ''label'', ''id''] (properties n))
       (map (\<lambda>c. if node_name c = ''channel'' then strip_channel c else strip_leaf [''name''] c)
          (keep_children [''channel'', ''attribute'', ''debug-attribute'', ''buffer-attribute'']
             (children n)))"

definition strip_context :: "xmlNode \<Rightarrow> xmlNode" where
  "strip_context n =
     XmlNode (node_name n)
       (keep_attrs [''description'', ''version-major'', ''version-minor'', ''version-git'',
                    ''name''] (properties n))
       (map (\<lambda>c. if node_name c = ''device'' then strip_device c
                  else strip_leaf [''name'', ''value''] c)
          (keep_children [''context-attribute'', ''device''] (children n)))"

section \<open>The format descriptor as a text\<close>



text \<open>A field ends where the text ends or a character that is no digit follows.\<close>

definition ends_field :: "string \<Rightarrow> bool" where
  "ends_field rest = (case rest of [] \<Rightarrow> True | c # _ \<Rightarrow> \<not> isdigit c)"






section \<open>Properties of the format decoder\<close>

lemmas format_eval_defs =
  setup_format_def sscanf_def fmt_plain_def fmt_repeat_def scan_uint_def sign_of_def
  isdigit_def isspace_def store_uint_def digits_value_def digit_val_def put_e_def put_s_def
  put_bits_def put_length_def put_shift_def put_repeat_def EINVAL_def

text \<open>
  A projection of the state that no conversion of a format assigns to is the same after
  \<^verbatim>\<open>sscanf\<close> as before, whether the call succeeds or not.
\<close>

lemma sscanf_run_keeps:
  assumes "\<And>c p st. ConvC p \<in> set ds \<Longrightarrow> P (p c st) = P st"
    and "\<And>w p st. ConvU p \<in> set ds \<Longrightarrow> P (p w st) = P st"
  shows "P (snd (sscanf_run ds s n st)) = P st"
  using assms
proof (induction ds s n st rule: sscanf_run.induct)
  case (1 s n st)
  then show ?case by simp
next
  case (2 c ds s n st)
  then show ?case by (cases s) auto
next
  case (3 put ds s n st)
  then show ?case by (cases s) auto
next
  case (4 put ds s n st)
  then show ?case by (auto simp: Let_def split: option.splits)
qed

lemma fmt_plain_keeps_repeat:
  "repeat (var_format (snd (sscanf_run fmt_plain s n st))) = repeat (var_format st)"
  by (rule sscanf_run_keeps)
     (auto simp: fmt_plain_def put_e_def put_s_def put_bits_def put_length_def put_shift_def)

text \<open>
  C1. A scan-element whose only attribute is the format \<^verbatim>\<open>be:s16/16>>0\<close> decodes to
  big-endian, signed, 16 bits in 16, repeat 1, shift 0, fully defined; the format
  \<^verbatim>\<open>le:u12/16X4>>2\<close> decodes to little-endian, unsigned, 12 bits in 16, repeat 4, shift 2
  (and not fully defined). Nothing else of the channel changes. Whenever the text has no
  \<^verbatim>\<open>X\<close>, the repeat count is 1 after the format branch.
\<close>

theorem decode_format_examples:
  "setup_scan_element H chn [(''format'', ''be:s16/16>>0'')] =
     (0, chn\<lparr>format := (format chn)
            \<lparr>length_f := 16, bits := 16, shift := 0, is_signed := True,
             is_fully_defined := True, is_be := True, repeat := 1\<rparr>\<rparr>)
   \<and> setup_scan_element H chn [(''format'', ''le:u12/16X4>>2'')] =
     (0, chn\<lparr>format := (format chn)
            \<lparr>length_f := 16, bits := 12, shift := 2, is_signed := False,
             is_fully_defined := False, is_be := False, repeat := 4\<rparr>\<rparr>)
   \<and> (CHR ''X'' \<notin> set content \<longrightarrow>
        repeat (format (snd (setup_format content chn))) = 1)"
proof (intro conjI impI)
  show "setup_scan_element H chn [(''format'', ''be:s16/16>>0'')] =
     (0, chn\<lparr>format := (format chn)
            \<lparr>length_f := 16, bits := 16, shift := 0, is_signed := True,
             is_fully_defined := True, is_be := True, repeat := 1\<rparr>\<rparr>)"
    by (simp add: format_eval_defs)
  show "setup_scan_element H chn [(''format'', ''le:u12/16X4>>2'')] =
     (0, chn\<lparr>format := (format chn)
            \<lparr>length_f := 16, bits := 12, shift := 2, is_signed := False,
             is_fully_defined := False, is_be := False, repeat := 4\<rparr>\<rparr>)"
    by (simp add: format_eval_defs)
next
  assume "CHR ''X'' \<notin> set content"
  then show "repeat (format (snd (setup_format content chn))) = 1"
    using fmt_plain_keeps_repeat
      [of content 0 "\<lparr>var_e = None, var_s = None, var_format = (format chn)\<lparr>repeat := 1\<rparr>\<rparr>"]
    by (auto simp: setup_format_def sscanf_def Let_def split: prod.splits)
qed

theorem decode_format_examples_witness:
  "CHR ''X'' \<notin> set ''be:s16/16>>0''
   \<and> repeat (format (snd (setup_format ''be:s16/16>>0'' zero_channel))) = 1"
  using decode_format_examples [of H zero_channel "''be:s16/16>>0''"]
  by simp

section \<open>Properties of the channels mask\<close>

lemma test_bit_iff:
  "iio_channels_mask_test_bit m b =
     (if b div 32 < length m then Some (bit (m ! (b div 32)) (b mod 32)) else None)"
  by (simp add: iio_channels_mask_test_bit_def BIT_WORD_def BIT_MASK_def BIT_def
      bit_iff_and_push_bit_not_eq_0)

lemma bit_set_word:
  "bit (w OR BIT_MASK i) k \<longleftrightarrow> bit w k \<or> k = i mod 32"
  by (auto simp: BIT_MASK_def BIT_def bit_simps)

lemma bit_clear_word:
  "bit (w AND NOT (BIT_MASK i)) k \<longleftrightarrow> bit w k \<and> k \<noteq> i mod 32"
  by (auto simp: BIT_MASK_def BIT_def bit_simps dest: bit_imp_le_length)

lemma same_word_other_bit:
  "(j::nat) \<noteq> i \<Longrightarrow> j div 32 = i div 32 \<Longrightarrow> j mod 32 \<noteq> i mod 32"
  by (metis div_mult_mod_eq)

lemma set_then_test:
  "Option.bind (iio_channels_mask_set_bit m i) (\<lambda>m'. iio_channels_mask_test_bit m' j) =
     (if i div 32 < length m
      then (if j = i then Some True else iio_channels_mask_test_bit m j)
      else None)"
  using same_word_other_bit [of j i]
  by (auto simp: iio_channels_mask_set_bit_def test_bit_iff BIT_WORD_def bit_set_word
      nth_list_update)

lemma clear_then_test:
  "Option.bind (iio_channels_mask_clear_bit m i) (\<lambda>m'. iio_channels_mask_test_bit m' j) =
     (if i div 32 < length m
      then (if j = i then Some False else iio_channels_mask_test_bit m j)
      else None)"
  using same_word_other_bit [of j i]
  by (auto simp: iio_channels_mask_clear_bit_def test_bit_iff BIT_WORD_def bit_clear_word
      nth_list_update)

lemma zero_mask_test:
  assumes "j < 32 * length m" and "m = replicate (length m) 0"
  shows "iio_channels_mask_test_bit m j = Some False"
proof -
  from assms(1) have "j div 32 < length m" by simp
  moreover from this assms(2) have "m ! (j div 32) = 0"
    by (metis nth_replicate)
  ultimately show ?thesis by (simp add: test_bit_iff)
qed

text \<open>
  C9. For a bit \<open>i\<close> within the mask (\<open>i < 32 * words\<close>): setting \<open>i\<close> and then testing it
  gives true; clearing \<open>i\<close> and then testing it gives false; for every other bit \<open>j\<close>,
  the test after setting or clearing \<open>i\<close> gives what it gave before; and on a mask whose
  words are all zero, every other bit \<open>j\<close> of the mask still tests false after \<open>i\<close> is
  set.
\<close>

theorem channels_mask_set_test_clear:
  assumes "i < 32 * length m"
  shows "Option.bind (iio_channels_mask_set_bit m i) (\<lambda>m'. iio_channels_mask_test_bit m' i)
           = Some True
    \<and> Option.bind (iio_channels_mask_clear_bit m i) (\<lambda>m'. iio_channels_mask_test_bit m' i)
           = Some False
    \<and> (j \<noteq> i \<longrightarrow>
         Option.bind (iio_channels_mask_set_bit m i) (\<lambda>m'. iio_channels_mask_test_bit m' j)
           = iio_channels_mask_test_bit m j
       \<and> Option.bind (iio_channels_mask_clear_bit m i) (\<lambda>m'. iio_channels_mask_test_bit m' j)
           = iio_channels_mask_test_bit m j)
    \<and> (j \<noteq> i \<and> j < 32 * length m \<and> m = replicate (length m) 0 \<longrightarrow>
         iio_channels_mask_test_bit m j = Some False
       \<and> Option.bind (iio_channels_mask_set_bit m i) (\<lambda>m'. iio_channels_mask_test_bit m' j)
           = Some False)"
proof -
  from assms have "i div 32 < length m" by simp
  then show ?thesis
    by (simp add: set_then_test clear_then_test zero_mask_test)
qed

theorem channels_mask_set_test_clear_witness:
  "(69::nat) < 32 * length (iio_create_channels_mask 70)
   \<and> (3::nat) \<noteq> 69 \<and> (3::nat) < 32 * length (iio_create_channels_mask 70)
   \<and> iio_create_channels_mask 70 = replicate (length (iio_create_channels_mask 70)) 0
   \<and> Option.bind (iio_channels_mask_set_bit (iio_create_channels_mask 70) 69)
        (\<lambda>m'. iio_channels_mask_test_bit m' 69) = Some True
   \<and> Option.bind (iio_channels_mask_clear_bit (iio_create_channels_mask 70) 69)
        (\<lambda>m'. iio_channels_mask_test_bit m' 69) = Some False
   \<and> Option.bind (iio_channels_mask_set_bit (iio_create_channels_mask 70) 69)
        (\<lambda>m'. iio_channels_mask_test_bit m' 3) = Some False"
  using channels_mask_set_test_clear [of 69 "iio_create_channels_mask 70" 3]
  by (simp add: iio_create_channels_mask_def)

section \<open>Properties of the model builder\<close>

lemma alloc_None [simp]: "alloc h = None \<longleftrightarrow> h = 0"
  by (simp add: alloc_def)

lemma alloc_Some: "alloc h = Some h' \<longleftrightarrow> h = Suc h'"
  by (cases h) (auto simp: alloc_def)

lemma iio_strdup_cases:
  "iio_strdup s h = (if h = 0 then (None, 0) else (Some s, h - 1))"
  by (simp add: iio_strdup_def alloc_def)

lemma errno_positive [simp]: "0 < ENOMEM" "0 < EINVAL" "0 < ENOENT"
  by (simp_all add: ENOMEM_def EINVAL_def ENOENT_def)

lemma errno_nonzero [simp]: "ENOMEM \<noteq> 0" "EINVAL \<noteq> 0" "ENOENT \<noteq> 0"
  by (simp_all add: ENOMEM_def EINVAL_def ENOENT_def)

lemmas build_eval_defs =
  iio_create_xml_context_helper_def iio_populate_xml_context_helper_def create_device_def
  create_channel_def add_attr_to_channel_def add_attr_to_device_def parse_context_attr_def
  alloc_def iio_strdup_def zero_device_def zero_channel_def zero_format_def
  spec_collab_def spec_context_create_def spec_context_add_attr_def
  spec_context_add_device_def spec_context_init_def spec_channel_init_finalize_def
  spec_add_iio_dev_attr_def ENOMEM_def EINVAL_def ENOENT_def


subsection \<open>Errors are negative\<close>

lemma channel_props_error:
  "channel_props as chn h = (Inl e, h') \<Longrightarrow> e = - ENOMEM \<and> h' = 0"
  by (induction as chn h rule: channel_props.induct)
     (auto simp: iio_strdup_cases split: if_splits)

lemma channel_children_error:
  "channel_children H ns chn h = (Inl e, h') \<Longrightarrow> e < 0"
  by (induction H ns chn h rule: channel_children.induct)
     (auto split: if_splits prod.splits)

lemma create_channel_error:
  "create_channel H n h = (Inl e, h') \<Longrightarrow> e < 0"
  by (auto simp: create_channel_def split: option.splits prod.splits sum.splits if_splits
      dest: channel_props_error channel_children_error)

lemma device_props_error:
  "device_props as dev h = (Inl e, h') \<Longrightarrow> e = - ENOMEM \<and> h' = 0"
  by (induction as dev h rule: device_props.induct)
     (auto simp: iio_strdup_cases split: if_splits)

lemma device_children_error:
  "device_children H ns dev h = (Inl e, h') \<Longrightarrow> e < 0"
  by (induction H ns dev h rule: device_children.induct)
     (auto split: if_splits prod.splits sum.splits option.splits dest: create_channel_error)

lemma create_device_error:
  "create_device H n h = (Inl e, h') \<Longrightarrow> e < 0"
  by (auto simp: create_device_def split: option.splits prod.splits sum.splits if_splits
      dest: device_props_error device_children_error)

subsection \<open>A device without an id\<close>

lemma device_props_no_id:
  "device_props as dev h = (Inr dev', h') \<Longrightarrow> ''id'' \<notin> fst ` set as \<Longrightarrow>
   dev_id dev' = dev_id dev"
  by (induction as dev h rule: device_props.induct)
     (auto simp: iio_strdup_cases split: if_splits)

lemma device_props_enough_heap:
  "length as \<le> h \<Longrightarrow> \<exists>dev' h'. device_props as dev h = (Inr dev', h')"
  by (induction as dev h rule: device_props.induct)
     (auto simp: iio_strdup_cases)

lemma create_device_no_id:
  assumes "''id'' \<notin> fst ` set (properties n)"
  shows "(\<exists>h'. create_device H n h = (Inl (- EINVAL), h'))
         \<or> create_device H n h = (Inl (- ENOMEM), 0)"
proof (cases h)
  case 0
  then show ?thesis by (simp add: create_device_def alloc_def)
next
  case (Suc h0)
  show ?thesis
  proof (cases "device_props (properties n) zero_device h0")
    case (Pair r h1)
    show ?thesis
    proof (cases r)
      case (Inl e)
      with Pair device_props_error have "e = - ENOMEM \<and> h1 = 0" by blast
      with Pair Inl Suc show ?thesis by (simp add: create_device_def alloc_def)
    next
      case (Inr dev)
      with Pair assms device_props_no_id have "dev_id dev = None"
        by (fastforce simp: zero_device_def)
      with Pair Inr Suc show ?thesis by (simp add: create_device_def alloc_def)
    qed
  qed
qed

lemma create_device_no_id_enough_heap:
  assumes "''id'' \<notin> fst ` set (properties n)" and "length (properties n) < h"
  shows "fst (create_device H n h) = Inl (- EINVAL)"
proof -
  from assms(2) obtain h0 where h: "h = Suc h0" and "length (properties n) \<le> h0"
    by (cases h) auto
  then obtain dev h1 where p: "device_props (properties n) zero_device h0 = (Inr dev, h1)"
    using device_props_enough_heap by blast
  with assms(1) device_props_no_id have "dev_id dev = None"
    by (fastforce simp: zero_device_def)
  with p h show ?thesis by (simp add: create_device_def alloc_def)
qed

lemma populate_children_no_id:
  assumes "n \<in> set ns" and "node_name n = ''device''"
    and "''id'' \<notin> fst ` set (properties n)"
  shows "fst (populate_children H ns ctx h) \<noteq> 0"
  using assms(1)
proof (induction H ns ctx h rule: populate_children.induct)
  case (1 H ctx h)
  then show ?case by simp
next
  case (2 H n' rest ctx h)
  show ?case
  proof (cases "n' = n")
    case True
    from create_device_no_id [OF assms(3), of H h]
    obtain e h' where "create_device H n h = (Inl e, h')" and "e < 0" by auto
    with True assms(2) show ?thesis by simp
  next
    case False
    with "2.prems" have "n \<in> set rest" by simp
    with "2.IH" show ?thesis
      by (auto split: prod.splits sum.splits dest: create_device_error)
  qed
qed

text \<open>
  C3. A \<^verbatim>\<open>device\<close> child of the root without an \<^verbatim>\<open>id\<close> attribute: building the device
  fails, with \<^verbatim>\<open>-EINVAL\<close> (certainly so when the allocator has a request left for the
  device and for each of its attributes) unless the allocator is exhausted first, when
  it fails with \<^verbatim>\<open>-ENOMEM\<close>; and the build of the document returns an error, not a
  context, whatever precedes the device in the document and whatever the functions
  defined outside xml.c do.
\<close>

theorem device_without_id_aborts_build:
  assumes "n \<in> set (children rt)" and "node_name n = ''device''"
    and "''id'' \<notin> fst ` set (properties n)"
  shows "((\<exists>h'. create_device H n h = (Inl (- EINVAL), h'))
          \<or> create_device H n h = (Inl (- ENOMEM), 0))
       \<and> (length (properties n) < h \<longrightarrow> fst (create_device H n h) = Inl (- EINVAL))
       \<and> (\<exists>e h'. iio_create_xml_context_helper H prm rt h = (Inl e, h'))"
proof (intro conjI impI)
  show "(\<exists>h'. create_device H n h = (Inl (- EINVAL), h'))
          \<or> create_device H n h = (Inl (- ENOMEM), 0)"
    by (rule create_device_no_id [OF assms(3)])
  show "fst (create_device H n h) = Inl (- EINVAL)" if "length (properties n) < h"
    by (rule create_device_no_id_enough_heap [OF assms(3) that])
  have nz: False if "iio_populate_xml_context_helper H ctx rt h2 = (0, c, h3)" for ctx h2 c h3
    using populate_children_no_id [OF assms, of H ctx h2] that
    by (simp add: iio_populate_xml_context_helper_def)
  show "\<exists>e h'. iio_create_xml_context_helper H prm rt h = (Inl e, h')"
    by (auto simp: iio_create_xml_context_helper_def Let_def
        split: prod.splits sum.splits option.splits dest: nz)
qed

theorem device_without_id_aborts_build_witness:
  "XmlNode ''device'' [(''name'', ''adc'')] []
     \<in> set (children (XmlNode ''context'' []
            [XmlNode ''device'' [(''id'', ''iio:device0'')] [],
             XmlNode ''device'' [(''name'', ''adc'')] []]))
   \<and> node_name (XmlNode ''device'' [(''name'', ''adc'')] []) = ''device''
   \<and> ''id'' \<notin> fst ` set (properties (XmlNode ''device'' [(''name'', ''adc'')] []))
   \<and> create_device spec_collab (XmlNode ''device'' [(''name'', ''adc'')] []) 10
       = (Inl (- EINVAL), 8)
   \<and> iio_create_xml_context_helper spec_collab 0
         (XmlNode ''context'' []
            [XmlNode ''device'' [(''id'', ''iio:device0'')] [],
             XmlNode ''device'' [(''name'', ''adc'')] []]) 10 = (Inl (- EINVAL), 4)"
  using device_without_id_aborts_build
    [of "XmlNode ''device'' [(''name'', ''adc'')] []"
        "XmlNode ''context'' []
            [XmlNode ''device'' [(''id'', ''iio:device0'')] [],
             XmlNode ''device'' [(''name'', ''adc'')] []]" spec_collab 10 0]
  by (simp add: build_eval_defs)

text \<open>
  C6. When the root element is not called \<^verbatim>\<open>context\<close> the build returns \<^verbatim>\<open>-EINVAL\<close>
  and leaves the allocator as it was: nothing has been allocated, and the result does
  not depend on any function defined outside xml.c, \<^verbatim>\<open>iio_context_create_from_backend\<close>
  among them.
\<close>

theorem unrecognized_root_fails_before_allocation:
  assumes "node_name rt \<noteq> ''context''"
  shows "iio_create_xml_context_helper H prm rt h = (Inl (- EINVAL), h)"
  using assms by (simp add: iio_create_xml_context_helper_def)

theorem unrecognized_root_fails_before_allocation_witness:
  "node_name (XmlNode ''devices'' [(''description'', ''d'')] []) \<noteq> ''context''
   \<and> iio_create_xml_context_helper spec_collab 0
        (XmlNode ''devices'' [(''description'', ''d'')] []) 5 = (Inl (- EINVAL), 5)"
  using unrecognized_root_fails_before_allocation
    [of "XmlNode ''devices'' [(''description'', ''d'')] []" spec_collab 0 5]
  by simp

subsection \<open>The index of a channel\<close>

lemma channel_props_index:
  "channel_props as chn h = (Inr chn', h') \<Longrightarrow> index chn' = index chn"
  by (induction as chn h rule: channel_props.induct)
     (auto simp: iio_strdup_cases split: if_splits)

lemma add_attr_to_channel_index:
  "add_attr_to_channel chn n h = (e, chn', h') \<Longrightarrow> index chn' = index chn"
  by (auto simp: add_attr_to_channel_def split: prod.splits sum.splits option.splits)

lemma setup_format_index: "index (snd (setup_format content chn)) = index chn"
  by (simp add: setup_format_def Let_def split: prod.splits)

lemma setup_scale_index: "index (snd (setup_scale H content chn)) = index chn"
  by (simp add: setup_scale_def Let_def split: prod.splits)

lemma setup_scan_element_index:
  "''index'' \<notin> fst ` set as \<Longrightarrow> index (snd (setup_scan_element H chn as)) = index chn"
proof (induction H chn as rule: setup_scan_element.induct)
  case (1 H chn)
  then show ?case by simp
next
  case (2 H chn nm content rest)
  then show ?case
    using setup_format_index [of content chn] setup_scale_index [of H content chn]
    by (auto simp: Let_def split: prod.splits if_splits)
qed

lemma channel_children_index:
  assumes "\<forall>c\<in>set ns. node_name c = ''scan-element'' \<longrightarrow> ''index'' \<notin> fst ` set (properties c)"
    and "channel_children H ns chn h = (Inr chn', h')"
  shows "index chn' = index chn"
  using assms
proof (induction H ns chn h rule: channel_children.induct)
  case (1 H chn h)
  then show ?case by simp
next
  case (2 H n rest chn h)
  show ?case
  proof (cases "node_name n = ''attribute''")
    case True
    with "2.prems" "2.IH"(1) show ?thesis
      by (auto split: prod.splits if_splits dest: add_attr_to_channel_index)
  next
    case False
    note na = this
    show ?thesis
    proof (cases "node_name n = ''scan-element''")
      case True
      with "2.prems"(1) have "''index'' \<notin> fst ` set (properties n)" by simp
      from setup_scan_element_index [OF this, of H "chn\<lparr>is_scan_element := True\<rparr>"]
      have "index (snd (setup_scan_element H (chn\<lparr>is_scan_element := True\<rparr>) (properties n)))
              = index chn" by simp
      with True na "2.prems" "2.IH"(2) show ?thesis
        by (auto split: prod.splits if_splits)
    next
      case False
      with na "2.prems" "2.IH"(3) show ?thesis by simp
    qed
  qed
qed

text \<open>
  C4 as the code has it. \<^verbatim>\<open>create_channel\<close> sets the index to \<^verbatim>\<open>-ENOENT\<close>, which is
  \<open>-2\<close>: a channel that is built, none of whose \<^verbatim>\<open>scan-element\<close> children has an
  \<^verbatim>\<open>index\<close> attribute (it may have no such child), has the index \<open>-2\<close>, provided that
  \<^verbatim>\<open>iio_channel_init_finalize\<close> leaves the index alone.
\<close>

theorem channel_without_index_has_sentinel:
  assumes "create_channel H n h = (Inr chn, h')"
    and "\<forall>c\<in>set (children n).
           node_name c = ''scan-element'' \<longrightarrow> ''index'' \<notin> fst ` set (properties c)"
    and "\<forall>c. index (iio_channel_init_finalize H c) = index c"
  shows "index chn = - ENOENT \<and> index chn = - 2"
proof -
  from assms(1) obtain h0 c1 h1 c2 where
    p: "channel_props (properties n) (zero_channel\<lparr>index := - ENOENT\<rparr>) h0 = (Inr c1, h1)"
    and c: "channel_children H (children n) c1 h1 = (Inr c2, h')"
    and f: "chn = iio_channel_init_finalize H c2"
    by (auto simp: create_channel_def split: option.splits prod.splits sum.splits if_splits)
  from channel_props_index [OF p] have "index c1 = - ENOENT" by simp
  with channel_children_index [OF assms(2) c] have "index c2 = - ENOENT" by simp
  with f assms(3) show ?thesis by (simp add: ENOENT_def)
qed

theorem channel_without_index_has_sentinel_witness:
  "create_channel spec_collab
     (XmlNode ''channel'' [(''id'', ''voltage0'')]
        [XmlNode ''scan-element'' [(''format'', ''le:s12/16>>4'')] []]) 5
   = (Inr (zero_channel
        \<lparr>is_scan_element := True,
         format := zero_format
           \<lparr>length_f := 16, bits := 12, shift := 4, is_signed := True, repeat := 1\<rparr>,
         chn_id := Some ''voltage0'', index := - 2\<rparr>), 3)
   \<and> index (zero_channel
        \<lparr>is_scan_element := True,
         format := zero_format
           \<lparr>length_f := 16, bits := 12, shift := 4, is_signed := True, repeat := 1\<rparr>,
         chn_id := Some ''voltage0'', index := - 2\<rparr>) = - ENOENT"
proof -
  have b: "create_channel spec_collab
     (XmlNode ''channel'' [(''id'', ''voltage0'')]
        [XmlNode ''scan-element'' [(''format'', ''le:s12/16>>4'')] []]) 5
   = (Inr (zero_channel
        \<lparr>is_scan_element := True,
         format := zero_format
           \<lparr>length_f := 16, bits := 12, shift := 4, is_signed := True, repeat := 1\<rparr>,
         chn_id := Some ''voltage0'', index := - 2\<rparr>), 3)"
    by (simp add: build_eval_defs format_eval_defs)
  have s: "\<forall>c\<in>set (children (XmlNode ''channel'' [(''id'', ''voltage0'')]
                  [XmlNode ''scan-element'' [(''format'', ''le:s12/16>>4'')] []])).
         node_name c = ''scan-element'' \<longrightarrow> ''index'' \<notin> fst ` set (properties c)"
    by simp
  have f: "\<forall>c. index (iio_channel_init_finalize spec_collab c) = index c"
    by (simp add: spec_collab_def spec_channel_init_finalize_def)
  from channel_without_index_has_sentinel [OF b s f] b show ?thesis by blast
qed

text \<open>
  C4 as the specification states it fails: a channel without any \<^verbatim>\<open>scan-element\<close> is built with the
  index \<open>-2\<close>, which is not \<open>-1\<close>.
\<close>

theorem channel_index_minus_one_counterexample:
  "fst (create_channel spec_collab (XmlNode ''channel'' [(''id'', ''voltage0'')] []) 2)
     = Inr (zero_channel\<lparr>chn_id := Some ''voltage0'', index := - 2\<rparr>)
   \<and> index (zero_channel\<lparr>chn_id := Some ''voltage0'', index := - 2\<rparr>) \<noteq> - 1"
  by (simp add: build_eval_defs)

subsection \<open>Channel attributes\<close>

lemma chn_attr_props_error:
  "chn_attr_props as nf h = (Inl e, h') \<Longrightarrow> e = - ENOMEM \<and> h' = 0"
  by (induction as nf h rule: chn_attr_props.induct)
     (auto simp: iio_strdup_cases split: if_splits)

lemma chn_attr_props_result:
  "chn_attr_props as (nm, fn) h = (Inr (nm', fn'), h') \<Longrightarrow>
   nm' = (case map_of (rev as) ''name'' of None \<Rightarrow> nm | Some c \<Rightarrow> Some c)
   \<and> fn' = (case map_of (rev as) ''filename'' of None \<Rightarrow> fn | Some c \<Rightarrow> Some c)"
proof (induction as "(nm, fn)" h arbitrary: nm fn rule: chn_attr_props.induct)
  case (1 h)
  then show ?case by simp
next
  case (2 an content rest nm fn h)
  then show ?case
    by (auto simp: iio_strdup_cases map_add_def split: if_splits option.splits)
qed

lemma chn_attr_props_enough_heap:
  "length as \<le> h \<Longrightarrow> \<exists>nf' h'. chn_attr_props as nf h = (Inr nf', h') \<and> h - length as \<le> h'"
proof (induction as nf h rule: chn_attr_props.induct)
  case (1 nf h)
  then show ?case by simp
next
  case (2 an content rest nm fn h)
  then show ?case
    by (fastforce simp: iio_strdup_cases)
qed

lemma map_of_rev_None: "map_of (rev as) k = None \<longleftrightarrow> k \<notin> fst ` set as"
  by (simp add: map_of_eq_None_iff)

text \<open>
  C8 as the code has it. Without a \<^verbatim>\<open>name\<close> attribute \<^verbatim>\<open>add_attr_to_channel\<close> fails,
  with \<^verbatim>\<open>-EINVAL\<close> unless the allocator is exhausted first, and so with \<^verbatim>\<open>-EINVAL\<close>
  whenever the allocator has a request left for each attribute. With one, and an allocator
  that has a request left for each attribute and two more, it succeeds. Whenever it
  succeeds it appends one pair to the channel's attributes and changes nothing else: the
  name is the text of the \<^verbatim>\<open>name\<close> attribute, the filename the text of the \<^verbatim>\<open>filename\<close>
  attribute, or the name when there is none. The texts are stored as they are, so the
  name and the filename are empty exactly when the attribute text is.
\<close>

theorem channel_attribute_name_and_filename:
  "(''name'' \<notin> fst ` set (properties n) \<longrightarrow>
      fst (add_attr_to_channel chn n h) = - EINVAL
      \<or> add_attr_to_channel chn n h = (- ENOMEM, chn, 0))
   \<and> (''name'' \<in> fst ` set (properties n) \<and> length (properties n) + 2 \<le> h \<longrightarrow>
      fst (add_attr_to_channel chn n h) = 0)
   \<and> (add_attr_to_channel chn n h = (0, chn', h') \<longrightarrow>
      (\<exists>nm. map_of (rev (properties n)) ''name'' = Some nm
        \<and> chn' = chn\<lparr>chn_attrs := chn_attrs chn @
             [\<lparr>name = nm,
               filename = (case map_of (rev (properties n)) ''filename'' of
                             None \<Rightarrow> nm | Some f \<Rightarrow> f)\<rparr>]\<rparr>))
   \<and> (''name'' \<notin> fst ` set (properties n) \<and> length (properties n) \<le> h \<longrightarrow>
      fst (add_attr_to_channel chn n h) = - EINVAL)"
proof (intro conjI impI)
  assume "''name'' \<notin> fst ` set (properties n)"
  then have nn: "map_of (rev (properties n)) ''name'' = None"
    by (simp add: map_of_rev_None)
  show "fst (add_attr_to_channel chn n h) = - EINVAL
      \<or> add_attr_to_channel chn n h = (- ENOMEM, chn, 0)"
  proof (cases "chn_attr_props (properties n) (None, None) h")
    case (Pair r h1)
    show ?thesis
    proof (cases r)
      case (Inl e)
      with Pair chn_attr_props_error have "e = - ENOMEM \<and> h1 = 0" by blast
      with Pair Inl show ?thesis by (simp add: add_attr_to_channel_def)
    next
      case (Inr nf)
      obtain nm fn where "nf = (nm, fn)" by (cases nf)
      with Pair Inr chn_attr_props_result [of "properties n" None None h nm fn h1] nn
      show ?thesis by (simp add: add_attr_to_channel_def)
    qed
  qed
next
  assume a: "''name'' \<in> fst ` set (properties n) \<and> length (properties n) + 2 \<le> h"
  then obtain c where c: "map_of (rev (properties n)) ''name'' = Some c"
    using map_of_rev_None [of "properties n" "''name''"] by auto
  from a have "length (properties n) \<le> h" by simp
  from chn_attr_props_enough_heap [OF this, of "(None, None)"]
  obtain nf h1 where p: "chn_attr_props (properties n) (None, None) h = (Inr nf, h1)"
    and h1: "h - length (properties n) \<le> h1" by blast
  obtain nm fn where nf: "nf = (nm, fn)" by (cases nf)
  from p nf chn_attr_props_result [of "properties n" None None h nm fn h1] c
  have "nm = Some c" by simp
  moreover from a h1 have "2 \<le> h1" by arith
  ultimately show "fst (add_attr_to_channel chn n h) = 0"
    using p nf
    by (cases fn) (auto simp: add_attr_to_channel_def iio_strdup_cases alloc_def)
next
  assume s: "add_attr_to_channel chn n h = (0, chn', h')"
  then obtain nm fn h1 where p: "chn_attr_props (properties n) (None, None) h = (Inr (nm, fn), h1)"
    by (auto simp: add_attr_to_channel_def split: prod.splits sum.splits
        dest: chn_attr_props_error)
  note r = chn_attr_props_result [OF p]
  from s p obtain c where c: "nm = Some c"
    by (cases nm) (auto simp: add_attr_to_channel_def)
  with r have "map_of (rev (properties n)) ''name'' = Some c"
    by (auto split: option.splits)
  moreover from s p c r
  have "chn' = chn\<lparr>chn_attrs := chn_attrs chn @
             [\<lparr>name = c,
               filename = (case map_of (rev (properties n)) ''filename'' of
                             None \<Rightarrow> c | Some f \<Rightarrow> f)\<rparr>]\<rparr>"
    by (auto simp: add_attr_to_channel_def iio_strdup_cases
        split: option.splits prod.splits if_splits)
  ultimately show "\<exists>nm. map_of (rev (properties n)) ''name'' = Some nm
        \<and> chn' = chn\<lparr>chn_attrs := chn_attrs chn @
             [\<lparr>name = nm,
               filename = (case map_of (rev (properties n)) ''filename'' of
                             None \<Rightarrow> nm | Some f \<Rightarrow> f)\<rparr>]\<rparr>"
    by blast
next
  assume a: "''name'' \<notin> fst ` set (properties n) \<and> length (properties n) \<le> h"
  then have nn: "map_of (rev (properties n)) ''name'' = None"
    by (simp add: map_of_rev_None)
  from a have "length (properties n) \<le> h" by simp
  from chn_attr_props_enough_heap [OF this, of "(None, None)"]
  obtain nf h1 where p: "chn_attr_props (properties n) (None, None) h = (Inr nf, h1)"
    by blast
  obtain nm fn where nf: "nf = (nm, fn)" by (cases nf)
  from p nf chn_attr_props_result [of "properties n" None None h nm fn h1] nn
  show "fst (add_attr_to_channel chn n h) = - EINVAL"
    by (simp add: add_attr_to_channel_def)
qed

theorem channel_attribute_name_and_filename_witness:
  "''name'' \<notin> fst ` set (properties (XmlNode ''attribute'' [(''filename'', ''in_raw'')] []))
   \<and> fst (add_attr_to_channel zero_channel
             (XmlNode ''attribute'' [(''filename'', ''in_raw'')] []) 3) = - EINVAL
   \<and> ''name'' \<in> fst ` set (properties (XmlNode ''attribute'' [(''name'', ''raw'')] []))
   \<and> length (properties (XmlNode ''attribute'' [(''name'', ''raw'')] [])) + 2 \<le> (3::nat)
   \<and> add_attr_to_channel zero_channel (XmlNode ''attribute'' [(''name'', ''raw'')] []) 3
       = (0, zero_channel\<lparr>chn_attrs := [\<lparr>name = ''raw'', filename = ''raw''\<rparr>]\<rparr>, 0)"
  using channel_attribute_name_and_filename
    [of "XmlNode ''attribute'' [(''filename'', ''in_raw'')] []" zero_channel 3]
    channel_attribute_name_and_filename
    [of "XmlNode ''attribute'' [(''name'', ''raw'')] []" zero_channel 3
        "zero_channel\<lparr>chn_attrs := [\<lparr>name = ''raw'', filename = ''raw''\<rparr>]\<rparr>" 0]
  by (simp add: build_eval_defs)

text \<open>
  C8 as the specification states it fails: an attribute element whose \<^verbatim>\<open>name\<close> is the empty text is
  built, with an empty name and an empty filename.
\<close>

theorem channel_attribute_empty_counterexample:
  "add_attr_to_channel zero_channel (XmlNode ''attribute'' [(''name'', [])] []) 3
     = (0, zero_channel\<lparr>chn_attrs := [\<lparr>name = [], filename = []\<rparr>]\<rparr>, 0)"
  by (simp add: build_eval_defs)

section \<open>Properties of the scale decoder\<close>

text \<open>
  The reference \<^verbatim>\<open>strtof\<close> at the two ends of the range of \<^verbatim>\<open>float\<close>: what it returns and
  when it reports \<^verbatim>\<open>ERANGE\<close>.
\<close>

lemma strtof_C_range_examples:
  "strtof_C ''1.1754943e-38'' = (Float (1 / 2 ^ 126), 13, True)"
  "strtof_C ''0x1.fffffdp-127'' = (Float (8388607 / 2 ^ 149), 15, False)"
  "strtof_C ''0x1.fffffep-127'' = (Float (1 / 2 ^ 126), 15, True)"
  "strtof_C ''0x1p-149'' = (Float (1 / 2 ^ 149), 8, False)"
  "strtof_C ''0x1.8p-149'' = (Float (1 / 2 ^ 148), 10, True)"
  "strtof_C ''1e-46'' = (Float 0, 5, True)"
  "strtof_C ''3.4028236e38'' = (Float_Inf False, 12, True)"
  by code_simp+

text \<open>
  C5 as the code has it. The \<^verbatim>\<open>scale\<close> branch fails exactly when \<^verbatim>\<open>strtof\<close> converts
  nothing (\<^verbatim>\<open>end == content\<close>) or reports \<^verbatim>\<open>ERANGE\<close>: then \<^verbatim>\<open>with_scale\<close> is cleared,
  \<^verbatim>\<open>setup_scan_element\<close> returns \<^verbatim>\<open>-EINVAL\<close> and the attributes that follow are not
  read. In every other case, characters left after the number or not, \<^verbatim>\<open>with_scale\<close> is
  set, the value is stored and the loop goes on.
\<close>

theorem scale_decoding:
  "strtof H content = (val, end_off, erange) \<Longrightarrow>
   (end_off = 0 \<or> erange \<longrightarrow>
      setup_scan_element H chn ((''scale'', content) # rest)
        = (- EINVAL, chn\<lparr>format := (format chn)\<lparr>with_scale := False\<rparr>\<rparr>))
   \<and> (\<not> (end_off = 0 \<or> erange) \<longrightarrow>
      setup_scan_element H chn ((''scale'', content) # rest)
        = setup_scan_element H
            (chn\<lparr>format := (format chn)\<lparr>with_scale := True, scale := val\<rparr>\<rparr>) rest)"
  by (simp add: setup_scale_def)

theorem scale_decoding_witness:
  "strtof spec_collab ''abc'' = (Float 0, 0, False)
   \<and> setup_scan_element spec_collab (zero_channel\<lparr>format := zero_format\<lparr>with_scale := True\<rparr>\<rparr>)
         [(''scale'', ''abc''), (''index'', ''3'')]
       = (- EINVAL, zero_channel\<lparr>format := zero_format\<lparr>with_scale := False\<rparr>\<rparr>)
   \<and> strtof spec_collab ''1e39'' = (Float_Inf False, 4, True)
   \<and> setup_scan_element spec_collab (zero_channel\<lparr>format := zero_format\<lparr>with_scale := True\<rparr>\<rparr>)
         [(''scale'', ''1e39'')]
       = (- EINVAL, zero_channel\<lparr>format := zero_format\<lparr>with_scale := False\<rparr>\<rparr>)
   \<and> strtof spec_collab ''0.5'' = (Float (1 / 2), 3, False)
   \<and> setup_scan_element spec_collab zero_channel [(''scale'', ''0.5'')]
       = (0, zero_channel\<lparr>format := zero_format\<lparr>with_scale := True, scale := Float (1 / 2)\<rparr>\<rparr>)"
proof -
  have a: "strtof spec_collab ''abc'' = (Float 0, 0, False)"
    by code_simp
  have b: "strtof spec_collab ''1e39'' = (Float_Inf False, 4, True)"
    by code_simp
  have c: "strtof spec_collab ''0.5'' = (Float (1 / 2), 3, False)"
    by code_simp
  from scale_decoding [OF a, of "zero_channel\<lparr>format := zero_format\<lparr>with_scale := True\<rparr>\<rparr>"
         "[(''index'', ''3'')]"]
       scale_decoding [OF b, of "zero_channel\<lparr>format := zero_format\<lparr>with_scale := True\<rparr>\<rparr>" "[]"]
       scale_decoding [OF c, of zero_channel "[]"] a b c
  show ?thesis by (simp add: zero_channel_def)
qed

text \<open>
  C5 as the specification states it fails: the text \<^verbatim>\<open>1.5abc\<close> has characters left after the number,
  and the scale decoder accepts it: it returns 0, sets \<^verbatim>\<open>with_scale\<close> and stores 1.5.
\<close>

theorem scale_trailing_characters_counterexample:
  "strtof spec_collab ''1.5abc'' = (Float (3 / 2), 3, False)
   \<and> setup_scan_element spec_collab zero_channel [(''scale'', ''1.5abc'')]
       = (0, zero_channel\<lparr>format := zero_format\<lparr>with_scale := True, scale := Float (3 / 2)\<rparr>\<rparr>)"
  by code_simp

section \<open>Properties of the context assembly\<close>

lemma root_props_git_tag:
  "''version-git'' \<notin> fst ` set as \<Longrightarrow> var_git_tag (root_props as v) = var_git_tag v"
  by (induction as v rule: root_props.induct) auto

lemma populate_children_keeps:
  assumes a: "\<And>c k v h e c' h1. iio_context_add_attr H c k v h = (e, c', h1) \<Longrightarrow> P c' = P c"
    and d: "\<And>c dev h e c' h1. iio_context_add_device H c dev h = (e, c', h1) \<Longrightarrow> P c' = P c"
    and i: "\<And>c h e c' h1. iio_context_init H c h = (e, c', h1) \<Longrightarrow> P c' = P c"
  shows "populate_children H ns ctx h = (e, ctx', h') \<Longrightarrow> P ctx' = P ctx"
proof (induction ns arbitrary: ctx h)
  case Nil
  then show ?case using i by simp
next
  case (Cons n rest)
  show ?case
  proof (cases "node_name n = ''context-attribute''")
    case True
    obtain e1 c1 h1 where p: "parse_context_attr H ctx n h = (e1, c1, h1)"
      by (cases "parse_context_attr H ctx n h") auto
    then have c1: "P c1 = P ctx"
      using a by (auto simp: parse_context_attr_def split: prod.splits option.splits)
    show ?thesis
    proof (cases "e1 = 0")
      case True
      with \<open>node_name n = ''context-attribute''\<close> p Cons.prems
      have "populate_children H rest c1 h1 = (e, ctx', h')" by simp
      from Cons.IH [OF this] c1 show ?thesis by simp
    next
      case False
      with \<open>node_name n = ''context-attribute''\<close> p Cons.prems c1 show ?thesis by simp
    qed
  next
    case False
    note nca = this
    show ?thesis
    proof (cases "node_name n = ''device''")
      case False
      with nca Cons.prems have "populate_children H rest ctx h = (e, ctx', h')" by simp
      from Cons.IH [OF this] show ?thesis .
    next
      case True
      show ?thesis
      proof (cases "create_device H n h")
        case (Pair r h1)
        show ?thesis
        proof (cases r)
          case (Inl err)
          with Pair True nca Cons.prems show ?thesis by simp
        next
          case (Inr dev)
          obtain e2 c2 h2 where ad: "iio_context_add_device H ctx dev h1 = (e2, c2, h2)"
            by (cases "iio_context_add_device H ctx dev h1") auto
          with d have c2: "P c2 = P ctx" by blast
          show ?thesis
          proof (cases "e2 = 0")
            case True
            with nca \<open>node_name n = ''device''\<close> Pair Inr ad Cons.prems
            have "populate_children H rest c2 h2 = (e, ctx', h')" by simp
            from Cons.IH [OF this] c2 show ?thesis by simp
          next
            case False
            with nca \<open>node_name n = ''device''\<close> Pair Inr ad Cons.prems c2
            show ?thesis by simp
          qed
        qed
      qed
    qed
  qed
qed

text \<open>
  C10. The version of a context is written by \<^verbatim>\<open>iio_create_xml_context_helper\<close> only
  under \<^verbatim>\<open>if (git_tag)\<close>. When the root has no \<^verbatim>\<open>version-git\<close> attribute, the context
  that is built has the version that \<^verbatim>\<open>iio_context_create_from_backend\<close> gave it,
  whatever \<^verbatim>\<open>version-major\<close> and \<^verbatim>\<open>version-minor\<close> say: major 0, minor 0 and no tag,
  given that a new context has these and that adding attributes and devices and
  finalising the context leave them alone.
\<close>

theorem version_recorded_only_with_git_tag:
  assumes "''version-git'' \<notin> fst ` set (properties rt)"
    and "iio_create_xml_context_helper H prm rt h = (Inr ctx, h')"
    and "\<forall>d h0 c h1. iio_context_create_from_backend H d h0 = (Inr c, h1) \<longrightarrow>
           major c = 0 \<and> minor c = 0 \<and> git_tag c = None"
    and "\<forall>c k v h0 e c' h1. iio_context_add_attr H c k v h0 = (e, c', h1) \<longrightarrow>
           major c' = major c \<and> minor c' = minor c \<and> git_tag c' = git_tag c"
    and "\<forall>c dev h0 e c' h1. iio_context_add_device H c dev h0 = (e, c', h1) \<longrightarrow>
           major c' = major c \<and> minor c' = minor c \<and> git_tag c' = git_tag c"
    and "\<forall>c h0 e c' h1. iio_context_init H c h0 = (e, c', h1) \<longrightarrow>
           major c' = major c \<and> minor c' = minor c \<and> git_tag c' = git_tag c"
  shows "major ctx = 0 \<and> minor ctx = 0 \<and> git_tag ctx = None"
proof -
  define v where "v = root_props (properties rt)
     \<lparr>var_description = None, var_git_tag = None, var_major = 0, var_minor = 0\<rparr>"
  from assms(1) have g: "var_git_tag v = None"
    by (simp add: v_def root_props_git_tag)
  from assms(2) g obtain c0 h1 where
    c: "iio_context_create_from_backend H (var_description v) h = (Inr c0, h1)"
    and p: "populate_children H (children rt) (c0\<lparr>params := prm\<rparr>) h1 = (0, ctx, h')"
    by (auto simp: iio_create_xml_context_helper_def iio_populate_xml_context_helper_def
        Let_def v_def [symmetric] split: if_splits prod.splits sum.splits)
  let ?P = "\<lambda>c. (major c, minor c, git_tag c)"
  have ka: "?P c' = ?P c" if "iio_context_add_attr H c k w h0 = (e, c', h2)"
    for c k w h0 e c' h2 using assms(4) that by blast
  have kd: "?P c' = ?P c" if "iio_context_add_device H c dev h0 = (e, c', h2)"
    for c dev h0 e c' h2 using assms(5) that by blast
  have ki: "?P c' = ?P c" if "iio_context_init H c h0 = (e, c', h2)"
    for c h0 e c' h2 using assms(6) that by blast
  have "?P ctx = ?P (c0\<lparr>params := prm\<rparr>)"
    by (rule populate_children_keeps [where P = ?P, OF ka kd ki p])
  with c assms(3) show ?thesis by auto
qed


theorem version_recorded_only_with_git_tag_witness:
  "''version-git'' \<notin> fst ` set (properties
      (XmlNode ''context''
         [(''version-major'', ''1''), (''version-minor'', ''2''), (''description'', ''d'')]
         [XmlNode ''device'' [(''id'', ''iio:device0'')] []]))
   \<and> iio_create_xml_context_helper spec_collab 7
      (XmlNode ''context''
         [(''version-major'', ''1''), (''version-minor'', ''2''), (''description'', ''d'')]
         [XmlNode ''device'' [(''id'', ''iio:device0'')] []]) 10
     = (Inr \<lparr>ctx_name = ''xml'', description = Some ''d'', major = 0, minor = 0,
             git_tag = None, devices = [zero_device\<lparr>dev_id := Some ''iio:device0''\<rparr>],
             ctx_attrs = [], params = 7\<rparr>, 6)
   \<and> major \<lparr>ctx_name = ''xml'', description = Some ''d'', major = 0, minor = 0,
             git_tag = None, devices = [zero_device\<lparr>dev_id := Some ''iio:device0''\<rparr>],
             ctx_attrs = [], params = 7\<rparr> = 0"
proof -
  let ?rt = "XmlNode ''context''
         [(''version-major'', ''1''), (''version-minor'', ''2''), (''description'', ''d'')]
         [XmlNode ''device'' [(''id'', ''iio:device0'')] []]"
  let ?ctx = "\<lparr>ctx_name = ''xml'', description = Some ''d'', major = 0, minor = 0,
             git_tag = None, devices = [zero_device\<lparr>dev_id := Some ''iio:device0''\<rparr>],
             ctx_attrs = [], params = 7\<rparr>"
  have g: "''version-git'' \<notin> fst ` set (properties ?rt)" by simp
  have b: "iio_create_xml_context_helper spec_collab 7 ?rt 10 = (Inr ?ctx, 6)"
    by code_simp
  have c: "\<forall>d h0 c h1. iio_context_create_from_backend spec_collab d h0 = (Inr c, h1) \<longrightarrow>
           major c = 0 \<and> minor c = 0 \<and> git_tag c = None"
    by (auto simp: spec_collab_def spec_context_create_def split: option.splits)
  have a: "\<forall>c k v h0 e c' h1. iio_context_add_attr spec_collab c k v h0 = (e, c', h1) \<longrightarrow>
           major c' = major c \<and> minor c' = minor c \<and> git_tag c' = git_tag c"
    by (auto simp: spec_collab_def spec_context_add_attr_def split: option.splits if_splits)
  have d: "\<forall>c dev h0 e c' h1. iio_context_add_device spec_collab c dev h0 = (e, c', h1) \<longrightarrow>
           major c' = major c \<and> minor c' = minor c \<and> git_tag c' = git_tag c"
    by (auto simp: spec_collab_def spec_context_add_device_def split: option.splits)
  have i: "\<forall>c h0 e c' h1. iio_context_init spec_collab c h0 = (e, c', h1) \<longrightarrow>
           major c' = major c \<and> minor c' = minor c \<and> git_tag c' = git_tag c"
    by (auto simp: spec_collab_def spec_context_init_def)
  from version_recorded_only_with_git_tag [OF g b c a d i] g b show ?thesis by simp
qed

text \<open>With a \<^verbatim>\<open>version-git\<close> attribute the same versions are recorded.\<close>

lemma version_recorded_with_git_tag_example:
  "iio_create_xml_context_helper spec_collab 7
      (XmlNode ''context''
         [(''version-major'', ''1''), (''version-minor'', ''2''), (''version-git'', ''v1.0'')]
         []) 10
     = (Inr \<lparr>ctx_name = ''xml'', description = None, major = 1, minor = 2,
             git_tag = Some ''v1.0'', devices = [], ctx_attrs = [], params = 7\<rparr>, 8)"
  by code_simp

section \<open>Unknown attributes and elements\<close>

lemma keep_children_simps:
  "keep_children known [] = []"
  "keep_children known (n # ns) =
     (if node_name n \<in> set known then n # keep_children known ns
      else keep_children known ns)"
  by (simp_all add: keep_children_def)

lemma node_name_strip_leaf [simp]: "node_name (strip_leaf known n) = node_name n"
  by (simp add: strip_leaf_def)

lemma properties_strip_leaf [simp]:
  "properties (strip_leaf known n) = keep_attrs known (properties n)"
  by (simp add: strip_leaf_def)

lemma setup_scan_element_keep:
  "setup_scan_element H chn (keep_attrs [''index'', ''format'', ''scale''] as)
     = setup_scan_element H chn as"
proof (induction as arbitrary: chn)
  case Nil
  then show ?case by (simp add: keep_attrs_def)
next
  case (Cons a as)
  obtain nm content where a: "a = (nm, content)" by (cases a)
  from Cons show ?case
    by (auto simp: a keep_attrs_def Let_def split: prod.splits)
qed

lemma chn_attr_props_keep:
  "chn_attr_props (keep_attrs [''name'', ''filename''] as) nf h = chn_attr_props as nf h"
proof (induction as nf h rule: chn_attr_props.induct)
  case (1 nf h)
  then show ?case by (simp add: keep_attrs_def)
next
  case (2 an content rest nm fn h)
  then show ?case
    by (auto simp: keep_attrs_def split: prod.splits option.splits)
qed

lemma add_attr_to_channel_strip:
  "add_attr_to_channel chn (strip_leaf [''name'', ''filename''] n) h = add_attr_to_channel chn n h"
  by (simp add: add_attr_to_channel_def chn_attr_props_keep)

lemma dev_attr_name_keep:
  "dev_attr_name (keep_attrs [''name''] as) nm = dev_attr_name as nm"
  by (induction as nm rule: dev_attr_name.induct) (auto simp: keep_attrs_def)

lemma add_attr_to_device_strip:
  "add_attr_to_device H dev (strip_leaf [''name''] n) ty h = add_attr_to_device H dev n ty h"
  by (simp add: add_attr_to_device_def dev_attr_name_keep)

lemma channel_props_keep:
  "channel_props (keep_attrs [''name'', ''id'', ''type''] as) chn h = channel_props as chn h"
proof (induction as chn h rule: channel_props.induct)
  case (1 chn h)
  then show ?case by (simp add: keep_attrs_def)
next
  case (2 an content rest chn h)
  then show ?case
    by (auto simp: keep_attrs_def split: prod.splits option.splits)
qed

lemma channel_children_strip:
  "channel_children H
     (map (\<lambda>c. if node_name c = ''attribute'' then strip_leaf [''name'', ''filename''] c
                else strip_leaf [''index'', ''format'', ''scale''] c)
        (keep_children [''attribute'', ''scan-element''] ns)) chn h
   = channel_children H ns chn h"
proof (induction ns arbitrary: chn h)
  case Nil
  then show ?case by (simp add: keep_children_simps)
next
  case (Cons n ns)
  show ?case
    by (simp add: keep_children_simps add_attr_to_channel_strip setup_scan_element_keep Cons
        cong: prod.case_cong if_cong)
qed

lemma properties_strip_channel:
  "properties (strip_channel n) = keep_attrs [''name'', ''id'', ''type''] (properties n)"
  by (simp add: strip_channel_def)

lemma children_strip_channel:
  "children (strip_channel n) =
     map (\<lambda>c. if node_name c = ''attribute'' then strip_leaf [''name'', ''filename''] c
                else strip_leaf [''index'', ''format'', ''scale''] c)
        (keep_children [''attribute'', ''scan-element''] (children n))"
  by (simp add: strip_channel_def)

lemma create_channel_strip: "create_channel H (strip_channel n) h = create_channel H n h"
  unfolding create_channel_def properties_strip_channel children_strip_channel
    channel_props_keep channel_children_strip
  by (rule refl)

lemma device_props_keep:
  "device_props (keep_attrs [''name'', ''label'', ''id''] as) dev h = device_props as dev h"
proof (induction as dev h rule: device_props.induct)
  case (1 dev h)
  then show ?case by (simp add: keep_attrs_def)
next
  case (2 an content rest dev h)
  then show ?case
    by (auto simp: keep_attrs_def split: prod.splits option.splits)
qed

lemma node_name_strip_channel [simp]: "node_name (strip_channel n) = node_name n"
  by (simp add: strip_channel_def)

lemma device_children_strip:
  "device_children H
     (map (\<lambda>c. if node_name c = ''channel'' then strip_channel c else strip_leaf [''name''] c)
        (keep_children [''channel'', ''attribute'', ''debug-attribute'', ''buffer-attribute''] ns))
     dev h
   = device_children H ns dev h"
proof (induction ns arbitrary: dev h)
  case Nil
  then show ?case by (simp add: keep_children_simps)
next
  case (Cons n ns)
  show ?case
    by (simp add: keep_children_simps create_channel_strip add_attr_to_device_strip Cons
        cong: prod.case_cong sum.case_cong option.case_cong if_cong)
qed

lemma properties_strip_device:
  "properties (strip_device n) = keep_attrs [''name'', ''label'', ''id''] (properties n)"
  by (simp add: strip_device_def)

lemma children_strip_device:
  "children (strip_device n) =
     map (\<lambda>c. if node_name c = ''channel'' then strip_channel c else strip_leaf [''name''] c)
        (keep_children [''channel'', ''attribute'', ''debug-attribute'', ''buffer-attribute'']
           (children n))"
  by (simp add: strip_device_def)

lemma create_device_strip: "create_device H (strip_device n) h = create_device H n h"
  unfolding create_device_def properties_strip_device children_strip_device
    device_props_keep device_children_strip
  by (rule refl)

lemma node_name_strip_device [simp]: "node_name (strip_device n) = node_name n"
  by (simp add: strip_device_def)

lemma context_attr_props_keep:
  "context_attr_props (keep_attrs [''name'', ''value''] as) nv = context_attr_props as nv"
  by (induction as nv rule: context_attr_props.induct) (auto simp: keep_attrs_def)

lemma parse_context_attr_strip:
  "parse_context_attr H ctx (strip_leaf [''name'', ''value''] n) h = parse_context_attr H ctx n h"
  by (simp add: parse_context_attr_def context_attr_props_keep)

lemma populate_children_strip:
  "populate_children H
     (map (\<lambda>c. if node_name c = ''device'' then strip_device c
                else strip_leaf [''name'', ''value''] c)
        (keep_children [''context-attribute'', ''device''] ns)) ctx h
   = populate_children H ns ctx h"
proof (induction ns arbitrary: ctx h)
  case Nil
  then show ?case by (simp add: keep_children_simps)
next
  case (Cons n ns)
  show ?case
    by (simp add: keep_children_simps create_device_strip parse_context_attr_strip Cons
        cong: prod.case_cong sum.case_cong if_cong)
qed

lemma root_props_keep:
  "root_props (keep_attrs [''description'', ''version-major'', ''version-minor'',
                           ''version-git'', ''name''] as) v = root_props as v"
  by (induction as v rule: root_props.induct) (auto simp: keep_attrs_def)

lemma node_name_strip_context: "node_name (strip_context n) = node_name n"
  by (simp add: strip_context_def)

lemma properties_strip_context:
  "properties (strip_context n) =
     keep_attrs [''description'', ''version-major'', ''version-minor'', ''version-git'',
                 ''name''] (properties n)"
  by (simp add: strip_context_def)

lemma children_strip_context:
  "children (strip_context n) =
     map (\<lambda>c. if node_name c = ''device'' then strip_device c
                else strip_leaf [''name'', ''value''] c)
        (keep_children [''context-attribute'', ''device''] (children n))"
  by (simp add: strip_context_def)

text \<open>
  C7. Building a document gives the same result, error or context and the same
  allocations, as building the document without its unknown attributes and unknown
  child elements, at every level of the schema and whatever the functions defined
  outside xml.c do: what is unknown causes no error and changes no field.
\<close>

theorem unknown_parts_are_ignored:
  "iio_create_xml_context_helper H prm (strip_context rt) h
     = iio_create_xml_context_helper H prm rt h"
  unfolding iio_create_xml_context_helper_def iio_populate_xml_context_helper_def
    node_name_strip_context properties_strip_context children_strip_context
    root_props_keep populate_children_strip
  by (rule refl)

theorem unknown_parts_are_ignored_witness:
  "strip_context
     (XmlNode ''context'' [(''description'', ''d''), (''future'', ''1'')]
        [XmlNode ''text'' [] [],
         XmlNode ''extension'' [(''a'', ''b'')] [],
         XmlNode ''device'' [(''id'', ''iio:device0''), (''vendor'', ''x'')]
           [XmlNode ''text'' [] [],
            XmlNode ''channel'' [(''id'', ''voltage0''), (''colour'', ''red'')]
              [XmlNode ''scan-element''
                 [(''index'', ''0''), (''format'', ''le:s12/16>>4''), (''endianness'', ''le'')]
                 [XmlNode ''note'' [] []],
               XmlNode ''comment'' [] []],
            XmlNode ''widget'' [] []]])
   = XmlNode ''context'' [(''description'', ''d'')]
        [XmlNode ''device'' [(''id'', ''iio:device0'')]
           [XmlNode ''channel'' [(''id'', ''voltage0'')]
              [XmlNode ''scan-element'' [(''index'', ''0''), (''format'', ''le:s12/16>>4'')] []]]]
   \<and> iio_create_xml_context_helper spec_collab 0
     (XmlNode ''context'' [(''description'', ''d''), (''future'', ''1'')]
        [XmlNode ''text'' [] [],
         XmlNode ''extension'' [(''a'', ''b'')] [],
         XmlNode ''device'' [(''id'', ''iio:device0''), (''vendor'', ''x'')]
           [XmlNode ''text'' [] [],
            XmlNode ''channel'' [(''id'', ''voltage0''), (''colour'', ''red'')]
              [XmlNode ''scan-element''
                 [(''index'', ''0''), (''format'', ''le:s12/16>>4''), (''endianness'', ''le'')]
                 [XmlNode ''note'' [] []],
               XmlNode ''comment'' [] []],
            XmlNode ''widget'' [] []]]) 20
   = (Inr \<lparr>ctx_name = ''xml'', description = Some ''d'', major = 0, minor = 0,
           git_tag = None,
           devices =
             [zero_device
                \<lparr>dev_id := Some ''iio:device0'',
                 channels :=
                   [zero_channel
                      \<lparr>is_scan_element := True,
                       format := zero_format
                         \<lparr>length_f := 16, bits := 12, shift := 4, is_signed := True,
                          repeat := 1\<rparr>,
                       chn_id := Some ''voltage0'', index := 0\<rparr>]\<rparr>],
           ctx_attrs = [], params = 0\<rparr>, 13)"
proof -
  let ?doc = "XmlNode ''context'' [(''description'', ''d''), (''future'', ''1'')]
        [XmlNode ''text'' [] [],
         XmlNode ''extension'' [(''a'', ''b'')] [],
         XmlNode ''device'' [(''id'', ''iio:device0''), (''vendor'', ''x'')]
           [XmlNode ''text'' [] [],
            XmlNode ''channel'' [(''id'', ''voltage0''), (''colour'', ''red'')]
              [XmlNode ''scan-element''
                 [(''index'', ''0''), (''format'', ''le:s12/16>>4''), (''endianness'', ''le'')]
                 [XmlNode ''note'' [] []],
               XmlNode ''comment'' [] []],
            XmlNode ''widget'' [] []]]"
  let ?clean = "XmlNode ''context'' [(''description'', ''d'')]
        [XmlNode ''device'' [(''id'', ''iio:device0'')]
           [XmlNode ''channel'' [(''id'', ''voltage0'')]
              [XmlNode ''scan-element'' [(''index'', ''0''), (''format'', ''le:s12/16>>4'')] []]]]"
  have s: "strip_context ?doc = ?clean"
    by (simp add: strip_context_def strip_device_def strip_channel_def strip_leaf_def
        keep_attrs_def keep_children_def)
  have b: "iio_create_xml_context_helper spec_collab 0 ?clean 20
   = (Inr \<lparr>ctx_name = ''xml'', description = Some ''d'', major = 0, minor = 0,
           git_tag = None,
           devices =
             [zero_device
                \<lparr>dev_id := Some ''iio:device0'',
                 channels :=
                   [zero_channel
                      \<lparr>is_scan_element := True,
                       format := zero_format
                         \<lparr>length_f := 16, bits := 12, shift := 4, is_signed := True,
                          repeat := 1\<rparr>,
                       chn_id := Some ''voltage0'', index := 0\<rparr>]\<rparr>],
           ctx_attrs = [], params = 0\<rparr>, 13)"
    by code_simp
  from unknown_parts_are_ignored [of spec_collab 0 ?doc 20]
  have "iio_create_xml_context_helper spec_collab 0 ?doc 20
          = iio_create_xml_context_helper spec_collab 0 ?clean 20"
    by (simp only: s)
  with s b show ?thesis by (simp only: simp_thms)
qed

section \<open>The shapes that the format decoder accepts\<close>






lemma dropWhile_ends_field: "ends_field r \<Longrightarrow> dropWhile isdigit r = r"
  by (cases r) (auto simp: ends_field_def)








lemma scan_uint_Nil [simp]: "scan_uint [] = None"
  by (simp add: scan_uint_def sign_of_def)























end
